theory Spec2Isabelle
  imports Complex_Main
begin

section \<open>Data model\<close>

text \<open>
  The Geometry2D readers of the X3D importer (X3DImporter_Geometry2D.cpp).
  A \<open>float\<close> (\<open>ai_real\<close>, IEEE binary32) is given by its value, a real number: the
  values are finite, the two zeros are one value. Comparing and negating floats is exact;
  subtracting and dividing them rounds, see \<open>float_sub\<close> and \<open>float_div\<close> below. A
  vector is the tuple of its coordinates.
\<close>

type_synonym aiVector2D = "real \<times> real"

type_synonym aiVector3D = "real \<times> real \<times> real"

text \<open>The element kinds of this file; \<open>ENET_Group\<close> stands for the kinds of other files.\<close>

datatype X3DElemType =
    ENET_Group
  | ENET_Arc2D
  | ENET_ArcClose2D
  | ENET_Circle2D
  | ENET_Disk2D
  | ENET_Polyline2D
  | ENET_Polypoint2D
  | ENET_Rectangle2D
  | ENET_TriangleSet2D

text \<open>
  An object of class X3DNodeElementGeometry2D with the members of its base class
  X3DNodeElementBase. Pointers to objects are addresses into the store of the importer.
\<close>

record X3DNodeElementGeometry2D =
  Type :: X3DElemType
  ID :: string
  Parent :: nat
  Children :: "nat list"
  Vertices :: "aiVector3D list"
  NumIndices :: nat
  Solid :: bool

text \<open>
  The importer: the store of the objects made by \<open>new\<close> (an object's address is its
  index, the next free address the length of the store), the element being filled
  (\<open>mNodeElementCur\<close>) and the list of all elements made so far (\<open>NodeElement_List\<close>).
\<close>

record X3DImporter =
  heap :: "X3DNodeElementGeometry2D list"
  mNodeElementCur :: nat
  NodeElement_List :: "nat list"

text \<open>
  An XML node as the readers see it: typed attribute values by name, and whether the
  node has nested content.
\<close>

record XmlNode =
  strAttr :: "string \<rightharpoonup> string"
  floatAttr :: "string \<rightharpoonup> real"
  boolAttr :: "string \<rightharpoonup> bool"
  vec2Attr :: "string \<rightharpoonup> aiVector2D"
  vec2ListAttr :: "string \<rightharpoonup> aiVector2D list"
  hasContent :: bool

text \<open>
  What a reader throws. \<open>IncorrectAttrValue n a\<close> is \<open>Throw_IncorrectAttrValue(n, a)\<close>,
  \<open>DeadlyImportError m\<close> is \<open>throw DeadlyImportError(m)\<close>; \<open>ReferenceError u\<close> is the
  failure of a USE lookup for the name \<open>u\<close>. A throw carries the importer as it is left.
\<close>

datatype error =
    DeadlyImportError string
  | IncorrectAttrValue string string
  | ReferenceError string

type_synonym result = "(error \<times> X3DImporter) + X3DImporter"

text \<open>
  \<open>childrenReadMetadata(node, ne, name)\<close> and
  \<open>X3DGeoHelper::make_arc2D(startAngle, endAngle, radius, numSegments, out)\<close> are
  defined in other files of the importer; the readers take them as parameters. The
  metadata reader works on the importer and may throw. The tessellation returns the points
  it appends to its output list, which is empty at every call of this file.
\<close>

type_synonym metadata_reader = "XmlNode \<Rightarrow> nat \<Rightarrow> string \<Rightarrow> X3DImporter \<Rightarrow> result"

type_synonym arc_maker = "real \<Rightarrow> real \<Rightarrow> real \<Rightarrow> nat \<Rightarrow> aiVector3D list"

section \<open>Binary32 arithmetic\<close>

text \<open>
  The result of \<open>a - b\<close> and \<open>a / b\<close> on two \<open>float\<close>s is the exact result rounded to
  the nearest binary32 number, ties to the even significand. The binary32 numbers around
  \<open>x\<close> are the multiples of \<open>ulp \<bar>x\<bar>\<close>: \<open>2\<^sup>k\<^sup>-\<^sup>2\<^sup>3\<close> for \<open>2\<^sup>k \<le> \<bar>x\<bar> < 2\<^sup>k\<^sup>+\<^sup>1\<close> and
  \<open>-126 \<le> k \<le> 127\<close>, and \<open>2\<^sup>-\<^sup>1\<^sup>4\<^sup>9\<close> below \<open>2\<^sup>-\<^sup>1\<^sup>2\<^sup>6\<close> (the subnormal numbers). The
  search for \<open>k\<close> starts at \<open>k = 0\<close> and goes up at most 127 times or down at most 126
  times. From \<open>2\<^sup>1\<^sup>2\<^sup>8\<close> on a binary32 operation gives infinity; here such a result could
  only come from the difference of two angles, which is compared with \<open>2\<pi>\<close> and nothing
  else, and the comparison comes out the same for the value of this model.
\<close>

definition round_half_even :: "real \<Rightarrow> int" where
  "round_half_even q =
     (let n = \<lfloor>q\<rfloor>; r = q - of_int n
      in if r < 1 / 2 then n else if 1 / 2 < r then n + 1 else if even n then n else n + 1)"

fun ulp_up :: "nat \<Rightarrow> real \<Rightarrow> real \<Rightarrow> real" where
  "ulp_up 0 u a = u"
| "ulp_up (Suc n) u a = (if a < 2 ^ 24 * u then u else ulp_up n (2 * u) a)"

fun ulp_down :: "nat \<Rightarrow> real \<Rightarrow> real \<Rightarrow> real" where
  "ulp_down 0 u a = u"
| "ulp_down (Suc n) u a = (if 2 ^ 23 * u \<le> a then u else ulp_down n (u / 2) a)"

definition ulp :: "real \<Rightarrow> real" where
  "ulp a = (if 1 \<le> a then ulp_up 127 (1 / 2 ^ 23) a else ulp_down 126 (1 / 2 ^ 23) a)"

definition float_round :: "real \<Rightarrow> real" where
  "float_round x = (let u = ulp \<bar>x\<bar> in of_int (round_half_even (x / u)) * u)"

text \<open>\<open>a - b\<close> and \<open>a / b\<close> on \<open>float\<close>s.\<close>

definition float_sub :: "real \<Rightarrow> real \<Rightarrow> real" where
  "float_sub a b = float_round (a - b)"

definition float_div :: "real \<Rightarrow> real \<Rightarrow> real" where
  "float_div a b = float_round (a / b)"

section \<open>Attribute access\<close>

text \<open>The accessors leave the default in place when the attribute is absent.\<close>

definition getStdStrAttribute :: "XmlNode \<Rightarrow> string \<Rightarrow> string \<Rightarrow> string" where
  "getStdStrAttribute node name val = (case strAttr node name of None \<Rightarrow> val | Some v \<Rightarrow> v)"

definition getFloatAttribute :: "XmlNode \<Rightarrow> string \<Rightarrow> real \<Rightarrow> real" where
  "getFloatAttribute node name val = (case floatAttr node name of None \<Rightarrow> val | Some v \<Rightarrow> v)"

definition getBoolAttribute :: "XmlNode \<Rightarrow> string \<Rightarrow> bool \<Rightarrow> bool" where
  "getBoolAttribute node name val = (case boolAttr node name of None \<Rightarrow> val | Some v \<Rightarrow> v)"

definition getVector2DAttribute :: "XmlNode \<Rightarrow> string \<Rightarrow> aiVector2D \<Rightarrow> aiVector2D" where
  "getVector2DAttribute node name val = (case vec2Attr node name of None \<Rightarrow> val | Some v \<Rightarrow> v)"

definition getVector2DListAttribute ::
  "XmlNode \<Rightarrow> string \<Rightarrow> aiVector2D list \<Rightarrow> aiVector2D list" where
  "getVector2DListAttribute node name val =
     (case vec2ListAttr node name of None \<Rightarrow> val | Some v \<Rightarrow> v)"

definition isNodeEmpty :: "XmlNode \<Rightarrow> bool" where
  "isNodeEmpty node = (\<not> hasContent node)"

text \<open>
  Modelled from the spec: the macro MACRO_ATTRREAD_CHECKUSEDEF_RET (X3DImporter_Macro.hpp
  is not among the sources) hands the reader the DEF and the USE name of the node, each
  empty when absent; at most one of them is given.
\<close>

definition MACRO_ATTRREAD_CHECKUSEDEF_RET :: "XmlNode \<Rightarrow> string \<times> string" where
  "MACRO_ATTRREAD_CHECKUSEDEF_RET node =
     (getStdStrAttribute node ''DEF'' [], getStdStrAttribute node ''USE'' [])"

text \<open>
  Modelled from the spec: the constants AI_MATH_HALF_PI_F and AI_MATH_TWO_PI_F (their
  header is not among the sources) are the default end angle \<open>\<pi>/2\<close> and the full sweep
  \<open>2\<pi>\<close>, as \<open>float\<close>s: the binary32 numbers nearest to them,
  \<open>13176795 / 2\<^sup>2\<^sup>3 = 1.57079637...\<close> and \<open>13176795 / 2\<^sup>2\<^sup>1 = 6.28318548...\<close>.
\<close>

definition AI_MATH_HALF_PI_F :: real where
  "AI_MATH_HALF_PI_F = 13176795 / 2 ^ 23"

definition AI_MATH_TWO_PI_F :: real where
  "AI_MATH_TWO_PI_F = 13176795 / 2 ^ 21"

section \<open>The store\<close>

text \<open>
  Modelled from the spec: the constructor \<open>X3DNodeElementGeometry2D(type, parent)\<close> (the
  class is declared outside the sources) makes an anonymous element with no children,
  no vertices and \<open>solid\<close> false.
\<close>

definition new_X3DNodeElementGeometry2D :: "X3DElemType \<Rightarrow> nat \<Rightarrow> X3DNodeElementGeometry2D" where
  "new_X3DNodeElementGeometry2D ty parent =
     \<lparr>Type = ty, ID = [], Parent = parent, Children = [], Vertices = [], NumIndices = 0,
      Solid = False\<rparr>"

text \<open>\<open>if (!def.empty()) ne->ID = def;\<close>\<close>

definition set_ID :: "string \<Rightarrow> X3DNodeElementGeometry2D \<Rightarrow> X3DNodeElementGeometry2D" where
  "set_ID d obj = (if d \<noteq> [] then obj\<lparr>ID := d\<rparr> else obj)"

text \<open>
  The object a reader builds is written to the store, at the next free address, when the
  reader hands it on or throws.
\<close>

definition store_new :: "X3DNodeElementGeometry2D \<Rightarrow> X3DImporter \<Rightarrow> X3DImporter" where
  "store_new obj s = s\<lparr>heap := heap s @ [obj]\<rparr>"

text \<open>
  \<open>p->Children.push_back(c)\<close>. The readers push through \<open>mNodeElementCur\<close>, which
  points to an object of the store; through a dangling pointer the store is left alone.
\<close>

definition push_child :: "nat \<Rightarrow> nat \<Rightarrow> X3DImporter \<Rightarrow> X3DImporter" where
  "push_child p c s =
     s\<lparr>heap := (heap s)[p := (heap s ! p)\<lparr>Children := Children (heap s ! p) @ [c]\<rparr>]\<rparr>"

text \<open>\<open>NodeElement_List.push_back(ne)\<close>\<close>

definition push_NodeElement_List :: "nat \<Rightarrow> X3DImporter \<Rightarrow> X3DImporter" where
  "push_NodeElement_List ne s = s\<lparr>NodeElement_List := NodeElement_List s @ [ne]\<rparr>"

text \<open>
  The lines that close the definition path of every reader:
  \<^verbatim>\<open>
  if (!isNodeEmpty(node))
      childrenReadMetadata(node, ne, "Arc2D");
  else
      mNodeElementCur->Children.push_back(ne);
  NodeElement_List.push_back(ne);
  \<close>
  The object is in the store at address \<open>ne\<close>; a throw of the metadata reader passes
  through.
\<close>

definition attach_and_register ::
  "metadata_reader \<Rightarrow> XmlNode \<Rightarrow> string \<Rightarrow> nat \<Rightarrow> X3DImporter \<Rightarrow> result" where
  "attach_and_register childrenReadMetadata node name ne s =
     (if \<not> isNodeEmpty node then
        (case childrenReadMetadata node ne name s of
           Inl thrown \<Rightarrow> Inl thrown
         | Inr s' \<Rightarrow> Inr (push_NodeElement_List ne s'))
      else Inr (push_NodeElement_List ne (push_child (mNodeElementCur s) ne s)))"

section \<open>The USE path\<close>

text \<open>
  Modelled from the spec: the lookup behind MACRO_USE_CHECKANDAPPLY
  (X3DImporter_Macro.hpp and the importer's FindNodeElement are not among the sources)
  goes through the registry for an element of the given name and kind.
\<close>

definition is_definition_of :: "X3DImporter \<Rightarrow> string \<Rightarrow> X3DElemType \<Rightarrow> nat \<Rightarrow> bool" where
  "is_definition_of s name ty p =
     (p < length (heap s) \<and> ID (heap s ! p) = name \<and> Type (heap s ! p) = ty)"

definition FindNodeElement :: "string \<Rightarrow> X3DElemType \<Rightarrow> X3DImporter \<Rightarrow> nat option" where
  "FindNodeElement name ty s = find (is_definition_of s name ty) (NodeElement_List s)"

text \<open>
  Modelled from the spec: MACRO_USE_CHECKANDAPPLY looks the USE name up by kind and
  name; if absent it fails with a reference error, if present it attaches the found
  element itself at the current position of the tree.
\<close>

definition MACRO_USE_CHECKANDAPPLY :: "string \<Rightarrow> X3DElemType \<Rightarrow> X3DImporter \<Rightarrow> result" where
  "MACRO_USE_CHECKANDAPPLY use ty s =
     (case FindNodeElement use ty s of
        None \<Rightarrow> Inl (ReferenceError use, s)
      | Some ne \<Rightarrow> Inr (push_child (mNodeElementCur s) ne s))"

section \<open>Geometry helpers\<close>

text \<open>
  Modelled from the spec: X3DGeoHelper::extend_point_to_line (X3DGeoHelper.cpp is not
  among the sources) turns the points \<open>P\<^sub>0 \<dots> P\<^sub>n\<^sub>-\<^sub>1\<close> into the pairs
  \<open>(P\<^sub>0,P\<^sub>1), (P\<^sub>1,P\<^sub>2), \<dots>\<close> and closes the loop with \<open>(P\<^sub>n\<^sub>-\<^sub>1,P\<^sub>0)\<close>; fewer than two
  points are an error, whose message the spec leaves open.
\<close>

fun line_pairs :: "'a \<Rightarrow> 'a list \<Rightarrow> 'a list" where
  "line_pairs p0 [] = []"
| "line_pairs p0 [p] = [p, p0]"
| "line_pairs p0 (p # q # ps) = p # q # line_pairs p0 (q # ps)"

definition extend_point_to_line :: "aiVector3D list \<Rightarrow> error + aiVector3D list" where
  "extend_point_to_line pPoint =
     (case pPoint of
        p0 # _ # _ \<Rightarrow> Inr (line_pairs p0 pPoint)
      | _ \<Rightarrow> Inl (DeadlyImportError ''extend_point_to_line. Less than 2 points.''))"

text \<open>
  Reading through an iterator of a \<open>std::list\<close>. Reading through \<open>end()\<close> is undefined
  in C++; a \<open>std::list\<close> reads its sentinel node there. What is read is the first
  argument, a value the caller does not control. \<open>list_front\<close> is \<open>*l.begin()\<close>
  and \<open>l.front()\<close>, \<open>list_back\<close> is \<open>l.back()\<close>.
\<close>

definition list_front :: "'a \<Rightarrow> 'a list \<Rightarrow> 'a" where
  "list_front past_end l = (case l of [] \<Rightarrow> past_end | v # _ \<Rightarrow> v)"

definition list_back :: "'a \<Rightarrow> 'a list \<Rightarrow> 'a" where
  "list_back past_end l = (if l = [] then past_end else last l)"

text \<open>\<open>emplace_back(it2->x, it2->y, 0)\<close> over a list of 2D points.\<close>

definition vec2_to_vec3 :: "aiVector2D list \<Rightarrow> aiVector3D list" where
  "vec2_to_vec3 l = map (\<lambda>(x, y). (x, y, 0)) l"

text \<open>
  The loop of readDisk2D over the inner and the outer ring:
  \<^verbatim>\<open>
  for (it_i = tlist_i.begin(), it_o = tlist_o.begin(); it_i != tlist_i.end();) {
      vlist.emplace_back(*it_i++); // 1st point
      vlist.emplace_back(*it_o++); // 2nd point
      vlist.emplace_back(*it_o);   // 3rd point
      vlist.emplace_back(*it_i);   // 4th point
  }
  \<close>
  An iterator is the rest of its list, \<open>end()\<close> the empty rest. The two rings have
  the same number of points, so the outer iterator reaches \<open>end()\<close> with the inner one;
  an iterator that is advanced at \<open>end()\<close> stays there.
\<close>

fun quad_loop ::
  "aiVector3D \<Rightarrow> aiVector3D \<Rightarrow> aiVector3D list \<Rightarrow> aiVector3D list \<Rightarrow> aiVector3D list
   \<Rightarrow> aiVector3D list" where
  "quad_loop end_i end_o [] it_o vlist = vlist"
| "quad_loop end_i end_o (p # it_i) it_o vlist =
     quad_loop end_i end_o it_i (tl it_o)
       (vlist @ [p, list_front end_o it_o, list_front end_o (tl it_o), list_front end_i it_i])"

text \<open>A double-quoted attribute value, as in \<open>closureType == "\"PIE\""\<close>.\<close>

definition quoted :: "string \<Rightarrow> string" where
  "quoted v = [CHR 0x22] @ v @ [CHR 0x22]"

section \<open>The readers\<close>

text \<open>The DEF and the USE name a reader is given.\<close>

abbreviation def_of :: "XmlNode \<Rightarrow> string" where
  "def_of node \<equiv> fst (MACRO_ATTRREAD_CHECKUSEDEF_RET node)"

abbreviation use_of :: "XmlNode \<Rightarrow> string" where
  "use_of node \<equiv> snd (MACRO_ATTRREAD_CHECKUSEDEF_RET node)"

definition readArc2D :: "metadata_reader \<Rightarrow> arc_maker \<Rightarrow> XmlNode \<Rightarrow> X3DImporter \<Rightarrow> result" where
  "readArc2D childrenReadMetadata make_arc2D node s =
     (let (def, use) = MACRO_ATTRREAD_CHECKUSEDEF_RET node;
          endAngle = getFloatAttribute node ''endAngle'' AI_MATH_HALF_PI_F;
          radius = getFloatAttribute node ''radius'' 1;
          startAngle = getFloatAttribute node ''startAngle'' 0
      in if use \<noteq> [] then MACRO_USE_CHECKANDAPPLY use ENET_Arc2D s
         else
           let ne = length (heap s);
               obj = set_ID def (new_X3DNodeElementGeometry2D ENET_Arc2D (mNodeElementCur s));
               tlist = make_arc2D startAngle endAngle radius 10
           in case extend_point_to_line tlist of
                Inl e \<Rightarrow> Inl (e, store_new obj s)
              | Inr line \<Rightarrow>
                  attach_and_register childrenReadMetadata node ''Arc2D'' ne
                    (store_new (obj\<lparr>Vertices := Vertices obj @ line, NumIndices := 2\<rparr>) s))"

definition readArcClose2D ::
  "metadata_reader \<Rightarrow> arc_maker \<Rightarrow> aiVector3D \<Rightarrow> XmlNode \<Rightarrow> X3DImporter \<Rightarrow> result" where
  "readArcClose2D childrenReadMetadata make_arc2D past_end node s =
     (let (def, use) = MACRO_ATTRREAD_CHECKUSEDEF_RET node;
          closureType = getStdStrAttribute node ''closureType'' ''PIE'';
          endAngle = getFloatAttribute node ''endAngle'' AI_MATH_HALF_PI_F;
          endAngle = getFloatAttribute node ''endAngle'' endAngle;
          radius = getFloatAttribute node ''radius'' 1;
          solid = getBoolAttribute node ''solid'' False;
          startAngle = getFloatAttribute node ''startAngle'' 0
      in if use \<noteq> [] then MACRO_USE_CHECKANDAPPLY use ENET_ArcClose2D s
         else
           let ne = length (heap s);
               obj = set_ID def
                 (new_X3DNodeElementGeometry2D ENET_ArcClose2D (mNodeElementCur s));
               obj = obj\<lparr>Solid := solid\<rparr>;
               obj = obj\<lparr>Vertices := Vertices obj @ make_arc2D startAngle endAngle radius 10\<rparr>;
               finish = (\<lambda>obj. attach_and_register childrenReadMetadata node ''ArcClose2D'' ne
                           (store_new (obj\<lparr>NumIndices := length (Vertices obj)\<rparr>) s))
           in if \<not> (\<bar>float_sub endAngle startAngle\<bar> \<ge> AI_MATH_TWO_PI_F \<or> endAngle = startAngle) then
                let vlist = Vertices obj in
                if closureType = ''PIE'' \<or> closureType = quoted ''PIE'' then
                  let vlist = vlist @ [(0, 0, 0)];
                      vlist = vlist @ [list_front past_end vlist]
                  in finish (obj\<lparr>Vertices := vlist\<rparr>)
                else if closureType \<noteq> ''CHORD'' \<and> closureType \<noteq> quoted ''CHORD'' then
                  Inl (IncorrectAttrValue ''ArcClose2D'' ''closureType'', store_new obj s)
                else
                  let vlist = vlist @ [list_front past_end vlist]
                  in finish (obj\<lparr>Vertices := vlist\<rparr>)
              else finish obj)"

definition readCircle2D :: "metadata_reader \<Rightarrow> arc_maker \<Rightarrow> XmlNode \<Rightarrow> X3DImporter \<Rightarrow> result" where
  "readCircle2D childrenReadMetadata make_arc2D node s =
     (let (def, use) = MACRO_ATTRREAD_CHECKUSEDEF_RET node;
          radius = getFloatAttribute node ''radius'' 1
      in if use \<noteq> [] then MACRO_USE_CHECKANDAPPLY use ENET_Circle2D s
         else
           let ne = length (heap s);
               obj = set_ID def (new_X3DNodeElementGeometry2D ENET_Circle2D (mNodeElementCur s));
               tlist = make_arc2D 0 0 radius 10
           in case extend_point_to_line tlist of
                Inl e \<Rightarrow> Inl (e, store_new obj s)
              | Inr line \<Rightarrow>
                  attach_and_register childrenReadMetadata node ''Circle2D'' ne
                    (store_new (obj\<lparr>Vertices := Vertices obj @ line, NumIndices := 2\<rparr>) s))"

definition readDisk2D ::
  "metadata_reader \<Rightarrow> arc_maker \<Rightarrow> aiVector3D \<Rightarrow> aiVector3D \<Rightarrow> XmlNode \<Rightarrow> X3DImporter
   \<Rightarrow> result" where
  "readDisk2D childrenReadMetadata make_arc2D end_i end_o node s =
     (let (def, use) = MACRO_ATTRREAD_CHECKUSEDEF_RET node;
          innerRadius = getFloatAttribute node ''innerRadius'' 0;
          outerRadius = getFloatAttribute node ''outerRadius'' 1;
          solid = getBoolAttribute node ''solid'' False
      in if use \<noteq> [] then MACRO_USE_CHECKANDAPPLY use ENET_Disk2D s
         else if innerRadius > outerRadius then
           Inl (IncorrectAttrValue ''Disk2D'' ''innerRadius'', s)
         else
           let ne = length (heap s);
               obj = set_ID def (new_X3DNodeElementGeometry2D ENET_Disk2D (mNodeElementCur s));
               tlist_o = make_arc2D 0 0 outerRadius 10;
               finish = (\<lambda>obj. attach_and_register childrenReadMetadata node ''Disk2D'' ne
                           (store_new (obj\<lparr>Solid := solid\<rparr>) s))
           in if innerRadius = 0 then
                finish (obj\<lparr>Vertices := tlist_o, NumIndices := length tlist_o\<rparr>)
              else if innerRadius = outerRadius then
                (case extend_point_to_line tlist_o of
                   Inl e \<Rightarrow> Inl (e, store_new obj s)
                 | Inr line \<Rightarrow> finish (obj\<lparr>Vertices := Vertices obj @ line, NumIndices := 2\<rparr>))
              else
                let vlist = Vertices obj;
                    tlist_i = make_arc2D 0 0 innerRadius 10
                in if length tlist_i < 2 then
                     Inl (DeadlyImportError ''Disk2D. Not enough points for creating quad list.'',
                          store_new obj s)
                   else
                     let vlist = quad_loop end_i end_o tlist_i tlist_o vlist;
                         vlist = vlist @ [list_back end_i tlist_i, list_back end_o tlist_o,
                                          list_front end_o tlist_o, list_front end_i tlist_i]
                     in finish (obj\<lparr>Vertices := vlist, NumIndices := 4\<rparr>))"

definition readPolyline2D :: "metadata_reader \<Rightarrow> XmlNode \<Rightarrow> X3DImporter \<Rightarrow> result" where
  "readPolyline2D childrenReadMetadata node s =
     (let (def, use) = MACRO_ATTRREAD_CHECKUSEDEF_RET node;
          lineSegments = getVector2DListAttribute node ''lineSegments'' []
      in if use \<noteq> [] then MACRO_USE_CHECKANDAPPLY use ENET_Polyline2D s
         else
           let ne = length (heap s);
               obj = set_ID def
                 (new_X3DNodeElementGeometry2D ENET_Polyline2D (mNodeElementCur s));
               tlist = vec2_to_vec3 lineSegments
           in case extend_point_to_line tlist of
                Inl e \<Rightarrow> Inl (e, store_new obj s)
              | Inr line \<Rightarrow>
                  attach_and_register childrenReadMetadata node ''Polyline2D'' ne
                    (store_new (obj\<lparr>Vertices := Vertices obj @ line, NumIndices := 2\<rparr>) s))"

definition readPolypoint2D :: "metadata_reader \<Rightarrow> XmlNode \<Rightarrow> X3DImporter \<Rightarrow> result" where
  "readPolypoint2D childrenReadMetadata node s =
     (let (def, use) = MACRO_ATTRREAD_CHECKUSEDEF_RET node;
          point = getVector2DListAttribute node ''point'' []
      in if use \<noteq> [] then MACRO_USE_CHECKANDAPPLY use ENET_Polypoint2D s
         else
           let ne = length (heap s);
               obj = set_ID def
                 (new_X3DNodeElementGeometry2D ENET_Polypoint2D (mNodeElementCur s));
               obj = obj\<lparr>Vertices := Vertices obj @ vec2_to_vec3 point\<rparr>;
               obj = obj\<lparr>NumIndices := 1\<rparr>
           in attach_and_register childrenReadMetadata node ''Polypoint2D'' ne (store_new obj s))"

definition readRectangle2D :: "metadata_reader \<Rightarrow> XmlNode \<Rightarrow> X3DImporter \<Rightarrow> result" where
  "readRectangle2D childrenReadMetadata node s =
     (let (def, use) = MACRO_ATTRREAD_CHECKUSEDEF_RET node;
          size = getVector2DAttribute node ''size'' (2, 2);
          solid = getBoolAttribute node ''solid'' False
      in if use \<noteq> [] then MACRO_USE_CHECKANDAPPLY use ENET_Rectangle2D s
         else
           let ne = length (heap s);
               obj = set_ID def
                 (new_X3DNodeElementGeometry2D ENET_Rectangle2D (mNodeElementCur s));
               x1 = float_div (- fst size) 2;
               x2 = float_div (fst size) 2;
               y1 = float_div (- snd size) 2;
               y2 = float_div (snd size) 2;
               vlist = Vertices obj;
               vlist = vlist @ [(x2, y1, 0)];
               vlist = vlist @ [(x2, y2, 0)];
               vlist = vlist @ [(x1, y2, 0)];
               vlist = vlist @ [(x1, y1, 0)];
               obj = obj\<lparr>Vertices := vlist\<rparr>;
               obj = obj\<lparr>Solid := solid\<rparr>;
               obj = obj\<lparr>NumIndices := 4\<rparr>
           in attach_and_register childrenReadMetadata node ''Rectangle2D'' ne (store_new obj s))"

definition readTriangleSet2D :: "metadata_reader \<Rightarrow> XmlNode \<Rightarrow> X3DImporter \<Rightarrow> result" where
  "readTriangleSet2D childrenReadMetadata node s =
     (let (def, use) = MACRO_ATTRREAD_CHECKUSEDEF_RET node;
          vertices = getVector2DListAttribute node ''vertices'' [];
          solid = getBoolAttribute node ''solid'' False
      in if use \<noteq> [] then MACRO_USE_CHECKANDAPPLY use ENET_TriangleSet2D s
         else if length vertices mod 3 \<noteq> 0 then
           Inl (DeadlyImportError ''TriangleSet2D. Not enough points for defining triangle.'', s)
         else
           let ne = length (heap s);
               obj = set_ID def
                 (new_X3DNodeElementGeometry2D ENET_TriangleSet2D (mNodeElementCur s));
               obj = obj\<lparr>Vertices := Vertices obj @ vec2_to_vec3 vertices\<rparr>;
               obj = obj\<lparr>Solid := solid\<rparr>;
               obj = obj\<lparr>NumIndices := 3\<rparr>
           in attach_and_register childrenReadMetadata node ''TriangleSet2D'' ne (store_new obj s))"

section \<open>Outcomes of the definition path\<close>

text \<open>
  What the definition path of a reader leaves behind when it returns: the new element
  \<open>ne\<close> is the last entry of the registry; for a node without content it is the last
  child of the current element; for a node with content the reader only adds the registry
  entry to what the metadata reader returned, which was given the importer with the new
  object in the store and nothing else changed.
\<close>

definition defined_and_registered ::
  "metadata_reader \<Rightarrow> XmlNode \<Rightarrow> string \<Rightarrow> X3DElemType \<Rightarrow> X3DImporter \<Rightarrow> X3DImporter \<Rightarrow> bool"
  where
  "defined_and_registered childrenReadMetadata node name ty s s' =
     (let ne = length (heap s); cur = mNodeElementCur s
      in (isNodeEmpty node \<longrightarrow>
            NodeElement_List s' = NodeElement_List s @ [ne]
            \<and> ((\<forall>p\<in>set (NodeElement_List s). p < ne) \<longrightarrow> count_list (NodeElement_List s') ne = 1)
            \<and> length (heap s') = Suc ne
            \<and> Type (heap s' ! ne) = ty
            \<and> (cur < ne \<longrightarrow> Children (heap s' ! cur) = Children (heap s ! cur) @ [ne]))
       \<and> (\<not> isNodeEmpty node \<longrightarrow>
            (\<exists>obj s2. Type obj = ty
               \<and> childrenReadMetadata node ne name (store_new obj s) = Inr s2
               \<and> heap (store_new obj s) = heap s @ [obj]
               \<and> NodeElement_List (store_new obj s) = NodeElement_List s
               \<and> NodeElement_List s' = NodeElement_List s2 @ [ne]
               \<and> count_list (NodeElement_List s') ne = Suc (count_list (NodeElement_List s2) ne)
               \<and> heap s' = heap s2)))"

text \<open>
  What a throw leaves behind when it comes before the attachment: the registry, the
  current element and every object that was in the store are as before.
\<close>

definition unchanged_by_throw :: "X3DImporter \<Rightarrow> X3DImporter \<Rightarrow> bool" where
  "unchanged_by_throw s s' =
     (NodeElement_List s' = NodeElement_List s
      \<and> mNodeElementCur s' = mNodeElementCur s
      \<and> take (length (heap s)) (heap s') = heap s)"

text \<open>
  Each reader, on its definition path, either throws before it attaches anything or
  hands an object of its kind to the closing lines.
\<close>

definition throws_or_attaches ::
  "metadata_reader \<Rightarrow> XmlNode \<Rightarrow> string \<Rightarrow> X3DElemType \<Rightarrow> X3DImporter \<Rightarrow> result \<Rightarrow> bool"
  where
  "throws_or_attaches crm node name ty s r =
     ((\<exists>e s'. r = Inl (e, s') \<and> unchanged_by_throw s s')
      \<or> (\<exists>obj. Type obj = ty
            \<and> r = attach_and_register crm node name (length (heap s)) (store_new obj s)))"

text \<open>
  A reader that goes through its definition path to the end: its result is that of the
  closing lines on an object of its kind. For a node without content it returns, with the
  element registered and attached; for a node with content it throws what the metadata
  reader throws, and returns, with the element registered, when the metadata reader
  returns.
\<close>

definition returns_registered ::
  "metadata_reader \<Rightarrow> XmlNode \<Rightarrow> string \<Rightarrow> X3DElemType \<Rightarrow> X3DImporter \<Rightarrow> result \<Rightarrow> bool"
  where
  "returns_registered crm node name ty s r =
     ((\<exists>obj. Type obj = ty
         \<and> r = attach_and_register crm node name (length (heap s)) (store_new obj s)
         \<and> (\<not> isNodeEmpty node \<longrightarrow>
               (case crm node (length (heap s)) name (store_new obj s) of
                  Inl thrown \<Rightarrow> r = Inl thrown
                | Inr s2 \<Rightarrow>
                    r = Inr (push_NodeElement_List (length (heap s)) s2)
                    \<and> defined_and_registered crm node name ty s
                          (push_NodeElement_List (length (heap s)) s2))))
      \<and> (isNodeEmpty node \<longrightarrow>
            (\<exists>s'. r = Inr s' \<and> defined_and_registered crm node name ty s s')))"

section \<open>Example inputs\<close>

text \<open>
  Concrete inputs on which the theorems below are evaluated: an importer whose store holds
  one group element, which is the current element and is registered; a node without
  attributes and without content; a tessellation that returns four points of the circle
  of the given radius; and a metadata reader that reads nothing and attaches the element.
\<close>

definition example_importer :: X3DImporter where
  "example_importer =
     \<lparr>heap = [new_X3DNodeElementGeometry2D ENET_Group 0], mNodeElementCur = 0,
      NodeElement_List = [0]\<rparr>"

definition example_node :: XmlNode where
  "example_node =
     \<lparr>strAttr = Map.empty, floatAttr = Map.empty, boolAttr = Map.empty, vec2Attr = Map.empty,
      vec2ListAttr = Map.empty, hasContent = False\<rparr>"

definition example_arc :: arc_maker where
  "example_arc startAngle endAngle radius numSegments =
     [(radius, 0, 0), (0, radius, 0), (- radius, 0, 0), (0, - radius, 0)]"

definition example_metadata :: metadata_reader where
  "example_metadata node ne name s = Inr (push_child (mNodeElementCur s) ne s)"


definition triangles_4 :: XmlNode where
  "triangles_4 = example_node\<lparr>vec2ListAttr := [''vertices'' \<mapsto> [(0, 0), (1, 0), (0, 1), (1, 1)]]\<rparr>"

definition triangles_6 :: XmlNode where
  "triangles_6 = example_node\<lparr>vec2ListAttr :=
    [''vertices'' \<mapsto> [(0, 0), (1, 0), (0, 1), (1, 0), (1, 1), (0, 1)]]\<rparr>"

definition arc_0_1 :: XmlNode where
  "arc_0_1 = example_node\<lparr>floatAttr := [''startAngle'' \<mapsto> 0, ''endAngle'' \<mapsto> 1]\<rparr>"

definition disk_1_2 :: XmlNode where
  "disk_1_2 = example_node\<lparr>floatAttr := [''innerRadius'' \<mapsto> 1, ''outerRadius'' \<mapsto> 2]\<rparr>"

definition arcclose_pie :: XmlNode where
  "arcclose_pie = example_node\<lparr>floatAttr := [''startAngle'' \<mapsto> 0, ''endAngle'' \<mapsto> 1]\<rparr>"

definition arcclose_wedge_circle :: XmlNode where
  "arcclose_wedge_circle =
     example_node\<lparr>strAttr := [''closureType'' \<mapsto> ''WEDGE''],
                  floatAttr := [''startAngle'' \<mapsto> 1, ''endAngle'' \<mapsto> 1]\<rparr>"

definition arcclose_wedge :: XmlNode where
  "arcclose_wedge =
     example_node\<lparr>strAttr := [''closureType'' \<mapsto> ''WEDGE''],
                  floatAttr := [''startAngle'' \<mapsto> 0, ''endAngle'' \<mapsto> 1]\<rparr>"

definition arcclose_near_two_pi :: XmlNode where
  "arcclose_near_two_pi =
     example_node\<lparr>floatAttr := [''startAngle'' \<mapsto> - 5033165 / 2 ^ 24,
                                ''endAngle'' \<mapsto> 12547649 / 2 ^ 21]\<rparr>"

definition arcclose_wedge_near_two_pi :: XmlNode where
  "arcclose_wedge_near_two_pi =
     example_node\<lparr>strAttr := [''closureType'' \<mapsto> ''WEDGE''],
                  floatAttr := [''startAngle'' \<mapsto> - 5033165 / 2 ^ 24,
                                ''endAngle'' \<mapsto> 12547649 / 2 ^ 21]\<rparr>"

definition arcclose_quoted_pie :: XmlNode where
  "arcclose_quoted_pie =
     example_node\<lparr>strAttr := [''closureType'' \<mapsto> quoted ''PIE''],
                  floatAttr := [''startAngle'' \<mapsto> 0, ''endAngle'' \<mapsto> 1]\<rparr>"

definition disk_0_minus_1 :: XmlNode where
  "disk_0_minus_1 = example_node\<lparr>floatAttr := [''outerRadius'' \<mapsto> - 1]\<rparr>"


definition polyline_3 :: XmlNode where
  "polyline_3 = example_node\<lparr>vec2ListAttr := [''lineSegments'' \<mapsto> [(0, 0), (1, 0), (0, 1)]]\<rparr>"

definition node_with_content :: XmlNode where
  "node_with_content = example_node\<lparr>hasContent := True\<rparr>"

definition circle_def_c1 :: XmlNode where
  "circle_def_c1 = example_node\<lparr>strAttr := [''DEF'' \<mapsto> ''c1'']\<rparr>"

definition circle_use_c1 :: XmlNode where
  "circle_use_c1 = example_node\<lparr>strAttr := [''USE'' \<mapsto> ''c1'']\<rparr>"

definition circle_use_missing :: XmlNode where
  "circle_use_missing = example_node\<lparr>strAttr := [''USE'' \<mapsto> ''missing'']\<rparr>"

definition importer_with_c1 :: X3DImporter where
  "importer_with_c1 =
     \<lparr>heap = [(new_X3DNodeElementGeometry2D ENET_Group 0)\<lparr>Children := [1]\<rparr>,
              (new_X3DNodeElementGeometry2D ENET_Circle2D 0)
                \<lparr>ID := ''c1'',
                 Vertices := [(1, 0, 0), (0, 1, 0), (0, 1, 0), (- 1, 0, 0),
                              (- 1, 0, 0), (0, - 1, 0), (0, - 1, 0), (1, 0, 0)],
                 NumIndices := 2\<rparr>],
      mNodeElementCur = 0, NodeElement_List = [0, 1]\<rparr>"

section \<open>Theorems\<close>

subsection \<open>Evaluating binary32 arithmetic\<close>

lemma ulp_up_numeral:
  "ulp_up (numeral k) u a = (if a < 2 ^ 24 * u then u else ulp_up (pred_numeral k) (2 * u) a)"
  by (simp add: numeral_eq_Suc)

lemma ulp_down_numeral:
  "ulp_down (numeral k) u a =
     (if 2 ^ 23 * u \<le> a then u else ulp_down (pred_numeral k) (u / 2) a)"
  by (simp add: numeral_eq_Suc)

lemmas float_eval =
  float_div_def float_sub_def float_round_def ulp_def round_half_even_def Let_def
  ulp_up_numeral ulp_down_numeral

text \<open>
  Halving rounds where the half is not a binary32 number: the smallest positive number
  \<open>2\<^sup>-\<^sup>1\<^sup>4\<^sup>9\<close> halves to 0, and \<open>3 \<cdot> 2\<^sup>-\<^sup>1\<^sup>4\<^sup>9\<close> to \<open>2\<^sup>-\<^sup>1\<^sup>4\<^sup>8\<close>. Subtracting rounds too:
  the angles \<open>-0.3f\<close> and \<open>5.9831853f\<close> differ by less than AI_MATH_TWO_PI_F, and their
  binary32 difference is AI_MATH_TWO_PI_F.
\<close>

lemma float_div_subnormal:
  "float_div (1 / 2 ^ 149) 2 = 0" "float_div (3 / 2 ^ 149) 2 = 1 / 2 ^ 148"
  by (simp_all add: float_eval)

lemma float_sub_near_two_pi:
  "\<bar>12547649 / 2 ^ 21 - (- 5033165 / 2 ^ 24)\<bar> < AI_MATH_TWO_PI_F"
  "float_sub (12547649 / 2 ^ 21) (- 5033165 / 2 ^ 24) = AI_MATH_TWO_PI_F"
  by (simp_all add: float_eval AI_MATH_TWO_PI_F_def)



subsection \<open>Attaching and registering\<close>

lemma attach_and_register_empty:
  "isNodeEmpty node \<Longrightarrow>
   attach_and_register crm node nm ne s =
     Inr (push_NodeElement_List ne (push_child (mNodeElementCur s) ne s))"
  by (simp add: attach_and_register_def)

lemma attach_and_register_content:
  "\<not> isNodeEmpty node \<Longrightarrow>
   attach_and_register crm node nm ne s =
     (case crm node ne nm s of Inl t \<Rightarrow> Inl t | Inr s' \<Rightarrow> Inr (push_NodeElement_List ne s'))"
  by (simp add: attach_and_register_def)

lemma attached_object:
  "\<exists>c. heap (push_NodeElement_List ne (push_child p ne (store_new obj s))) ! length (heap s)
     = obj\<lparr>Children := c\<rparr>"
proof (cases "p = length (heap s)")
  case True
  then have "heap (push_NodeElement_List ne (push_child p ne (store_new obj s))) ! length (heap s)
     = obj\<lparr>Children := Children obj @ [ne]\<rparr>"
    by (simp add: push_NodeElement_List_def push_child_def store_new_def)
  then show ?thesis by blast
next
  case False
  then have "heap (push_NodeElement_List ne (push_child p ne (store_new obj s))) ! length (heap s)
     = obj"
    by (simp add: push_NodeElement_List_def push_child_def store_new_def nth_list_update)
  then have "heap (push_NodeElement_List ne (push_child p ne (store_new obj s))) ! length (heap s)
     = obj\<lparr>Children := Children obj\<rparr>" by simp
  then show ?thesis by blast
qed

lemma mNodeElementCur_store_new [simp]:
  "mNodeElementCur (store_new obj s) = mNodeElementCur s"
  by (simp add: store_new_def)

lemma attached_Vertices:
  "Vertices (heap (push_NodeElement_List ne (push_child p ne (store_new obj s))) ! length (heap s))
     = Vertices obj"
  using attached_object [of ne p obj s] by auto

lemma attached_NumIndices:
  "NumIndices (heap (push_NodeElement_List ne (push_child p ne (store_new obj s))) ! length (heap s))
     = NumIndices obj"
  using attached_object [of ne p obj s] by auto

lemma attached_Type:
  "Type (heap (push_NodeElement_List ne (push_child p ne (store_new obj s))) ! length (heap s))
     = Type obj"
  using attached_object [of ne p obj s] by auto

lemma attached_registry:
  "NodeElement_List (push_NodeElement_List ne (push_child p ne (store_new obj s)))
     = NodeElement_List s @ [ne]"
  by (simp add: push_NodeElement_List_def push_child_def store_new_def)

lemma attached_store_size:
  "length (heap (push_NodeElement_List ne (push_child p ne (store_new obj s))))
     = Suc (length (heap s))"
  by (simp add: push_NodeElement_List_def push_child_def store_new_def)

lemma attached_Children:
  "p < length (heap s) \<Longrightarrow>
   Children (heap (push_NodeElement_List ne (push_child p ne (store_new obj s))) ! p)
     = Children (heap s ! p) @ [ne]"
  by (simp add: push_NodeElement_List_def push_child_def store_new_def nth_append)

lemma attached_others:
  "q < length (heap s) \<Longrightarrow> q \<noteq> p \<Longrightarrow>
   heap (push_NodeElement_List ne (push_child p ne (store_new obj s))) ! q = heap s ! q"
  by (simp add: push_NodeElement_List_def push_child_def store_new_def nth_append)

lemma attach_and_register_empty_object:
  assumes "isNodeEmpty node"
  shows "\<exists>s'. attach_and_register crm node nm (length (heap s)) (store_new obj s) = Inr s'
           \<and> Vertices (heap s' ! length (heap s)) = Vertices obj
           \<and> NumIndices (heap s' ! length (heap s)) = NumIndices obj
           \<and> Type (heap s' ! length (heap s)) = Type obj"
  using assms
  by (simp add: attach_and_register_empty attached_Vertices attached_NumIndices attached_Type)

lemma example_node_simps:
  "use_of example_node = []" "def_of example_node = []" "isNodeEmpty example_node"
  by (simp_all add: example_node_def MACRO_ATTRREAD_CHECKUSEDEF_RET_def getStdStrAttribute_def
      isNodeEmpty_def)

subsection \<open>Rectangle2D\<close>



text \<open>
  At a size whose halves are not binary32 numbers the corners are the rounded halves:
  for \<open>(2\<^sup>-\<^sup>1\<^sup>4\<^sup>9, 3 \<cdot> 2\<^sup>-\<^sup>1\<^sup>4\<^sup>9)\<close> the first corner is \<open>(0, -2\<^sup>-\<^sup>1\<^sup>4\<^sup>8)\<close>.
\<close>

lemma readRectangle2D_subnormal:
  assumes "use_of node = []"
    and "getVector2DAttribute node ''size'' (2, 2) = (1 / 2 ^ 149, 3 / 2 ^ 149)"
  shows "\<exists>obj. readRectangle2D childrenReadMetadata node s =
             attach_and_register childrenReadMetadata node ''Rectangle2D'' (length (heap s))
               (store_new obj s)
           \<and> hd (Vertices obj) = (0, - (1 / 2 ^ 148), 0)"
proof -
  have "float_div (- (3 / 2 ^ 149)) 2 = - (1 / 2 ^ 148)"
    by (simp add: float_eval)
  then show ?thesis
    using assms
    by (intro exI [of _ "(set_ID (def_of node)
          (new_X3DNodeElementGeometry2D ENET_Rectangle2D (mNodeElementCur s)))
        \<lparr>Vertices := [(0, - (1 / 2 ^ 148), 0), (0, 1 / 2 ^ 148, 0), (0, 1 / 2 ^ 148, 0),
                      (0, - (1 / 2 ^ 148), 0)],
         Solid := getBoolAttribute node ''solid'' False, NumIndices := 4\<rparr>"])
       (simp add: readRectangle2D_def Let_def split_beta set_ID_def
        new_X3DNodeElementGeometry2D_def float_eval)
qed

subsection \<open>TriangleSet2D\<close>

text \<open>
  C7. On the definition path the TriangleSet2D reader throws its error (the
  \<open>DeadlyImportError\<close> "TriangleSet2D. Not enough points for defining triangle.", the
  failure the spec calls AttributeValueError) when the number of input points is not a
  multiple of 3, leaving the importer as it was. Otherwise it builds an element with one
  vertex per input point, in order, with \<open>z = 0\<close>, and \<open>NumIndices\<close> 3, and hands it to
  the closing lines; then the reader throws only what the metadata reader throws on a node
  with content, and on a node without content it returns with that element in the store.
\<close>

theorem readTriangleSet2D_multiple_of_3:
  assumes "use_of node = []"
    and "getVector2DListAttribute node ''vertices'' [] = pts"
  shows "(length pts mod 3 \<noteq> 0 \<longrightarrow>
            readTriangleSet2D childrenReadMetadata node s =
              Inl (DeadlyImportError ''TriangleSet2D. Not enough points for defining triangle.'', s))
       \<and> (length pts mod 3 = 0 \<longrightarrow>
            (\<exists>obj. readTriangleSet2D childrenReadMetadata node s =
                attach_and_register childrenReadMetadata node ''TriangleSet2D'' (length (heap s))
                  (store_new obj s)
              \<and> Vertices obj = map (\<lambda>(x, y). (x, y, 0)) pts
              \<and> length (Vertices obj) = length pts
              \<and> NumIndices obj = 3
              \<and> (\<forall>thrown. readTriangleSet2D childrenReadMetadata node s = Inl thrown \<longrightarrow>
                    \<not> isNodeEmpty node
                    \<and> childrenReadMetadata node (length (heap s)) ''TriangleSet2D''
                         (store_new obj s) = Inl thrown)))
       \<and> (length pts mod 3 = 0 \<and> isNodeEmpty node \<longrightarrow>
            (\<exists>s'. readTriangleSet2D childrenReadMetadata node s = Inr s'
              \<and> Vertices (heap s' ! length (heap s)) = map (\<lambda>(x, y). (x, y, 0)) pts
              \<and> NumIndices (heap s' ! length (heap s)) = 3))"
proof -
  define obj where "obj =
    (set_ID (def_of node) (new_X3DNodeElementGeometry2D ENET_TriangleSet2D (mNodeElementCur s)))
      \<lparr>Vertices := vec2_to_vec3 pts, Solid := getBoolAttribute node ''solid'' False,
       NumIndices := 3\<rparr>"
  have v: "Vertices obj = map (\<lambda>(x, y). (x, y, 0)) pts" and n: "NumIndices obj = 3"
    by (simp_all add: obj_def vec2_to_vec3_def)
  have bad: "readTriangleSet2D childrenReadMetadata node s =
      Inl (DeadlyImportError ''TriangleSet2D. Not enough points for defining triangle.'', s)"
    if "length pts mod 3 \<noteq> 0"
    using assms that by (simp add: readTriangleSet2D_def Let_def split_beta)
  have run: "readTriangleSet2D childrenReadMetadata node s =
      attach_and_register childrenReadMetadata node ''TriangleSet2D'' (length (heap s))
        (store_new obj s)"
    if "length pts mod 3 = 0"
    using assms that
    by (simp add: readTriangleSet2D_def obj_def Let_def split_beta set_ID_def
        new_X3DNodeElementGeometry2D_def)
  have own: "\<not> isNodeEmpty node
      \<and> childrenReadMetadata node (length (heap s)) ''TriangleSet2D'' (store_new obj s) = Inl thrown"
    if "length pts mod 3 = 0" "readTriangleSet2D childrenReadMetadata node s = Inl thrown"
    for thrown
    using that run
    by (auto simp: attach_and_register_def split: if_splits sum.splits)
  have fin: "\<exists>s'. readTriangleSet2D childrenReadMetadata node s = Inr s'
      \<and> Vertices (heap s' ! length (heap s)) = map (\<lambda>(x, y). (x, y, 0)) pts
      \<and> NumIndices (heap s' ! length (heap s)) = 3"
    if "length pts mod 3 = 0" "isNodeEmpty node"
    using attach_and_register_empty_object [OF that(2), of childrenReadMetadata
        "''TriangleSet2D''" s obj] run [OF that(1)] v n
    by auto
  have mid: "\<exists>obj. readTriangleSet2D childrenReadMetadata node s =
        attach_and_register childrenReadMetadata node ''TriangleSet2D'' (length (heap s))
          (store_new obj s)
      \<and> Vertices obj = map (\<lambda>(x, y). (x, y, 0)) pts
      \<and> length (Vertices obj) = length pts
      \<and> NumIndices obj = 3
      \<and> (\<forall>thrown. readTriangleSet2D childrenReadMetadata node s = Inl thrown \<longrightarrow>
            \<not> isNodeEmpty node
            \<and> childrenReadMetadata node (length (heap s)) ''TriangleSet2D''
                 (store_new obj s) = Inl thrown)"
    if "length pts mod 3 = 0"
  proof (intro exI [of _ obj] conjI allI impI)
    show "readTriangleSet2D childrenReadMetadata node s =
        attach_and_register childrenReadMetadata node ''TriangleSet2D'' (length (heap s))
          (store_new obj s)"
      by (rule run [OF that])
    show "Vertices obj = map (\<lambda>(x, y). (x, y, 0)) pts" by (rule v)
    show "length (Vertices obj) = length pts" by (simp add: v)
    show "NumIndices obj = 3" by (rule n)
    show "\<not> isNodeEmpty node"
      if "readTriangleSet2D childrenReadMetadata node s = Inl thrown" for thrown
      using own [OF \<open>length pts mod 3 = 0\<close> that] by simp
    show "childrenReadMetadata node (length (heap s)) ''TriangleSet2D'' (store_new obj s)
        = Inl thrown"
      if "readTriangleSet2D childrenReadMetadata node s = Inl thrown" for thrown
      using own [OF \<open>length pts mod 3 = 0\<close> that] by simp
  qed
  show ?thesis
    apply (intro conjI impI)
      apply (erule bad)
     apply (erule mid)
    apply (erule conjE, erule (1) fin)
    done
qed

theorem readTriangleSet2D_multiple_of_3_witness:
  "use_of triangles_4 = []
   \<and> getVector2DListAttribute triangles_4 ''vertices'' [] = [(0, 0), (1, 0), (0, 1), (1, 1)]
   \<and> readTriangleSet2D example_metadata triangles_4 example_importer =
       Inl (DeadlyImportError ''TriangleSet2D. Not enough points for defining triangle.'',
            example_importer)
   \<and> use_of triangles_6 = []
   \<and> getVector2DListAttribute triangles_6 ''vertices'' [] =
       [(0, 0), (1, 0), (0, 1), (1, 0), (1, 1), (0, 1)]
   \<and> isNodeEmpty triangles_6
   \<and> (\<exists>s'. readTriangleSet2D example_metadata triangles_6 example_importer = Inr s'
        \<and> Vertices (heap s' ! 1) =
            [(0, 0, 0), (1, 0, 0), (0, 1, 0), (1, 0, 0), (1, 1, 0), (0, 1, 0)]
        \<and> NumIndices (heap s' ! 1) = 3)"
proof -
  have u4: "use_of triangles_4 = []" and u6: "use_of triangles_6 = []"
    by (simp_all add: triangles_4_def triangles_6_def example_node_def
        MACRO_ATTRREAD_CHECKUSEDEF_RET_def getStdStrAttribute_def)
  have p4: "getVector2DListAttribute triangles_4 ''vertices'' [] = [(0, 0), (1, 0), (0, 1), (1, 1)]"
    by (simp add: triangles_4_def getVector2DListAttribute_def)
  have p6: "getVector2DListAttribute triangles_6 ''vertices'' [] =
      [(0, 0), (1, 0), (0, 1), (1, 0), (1, 1), (0, 1)]"
    by (simp add: triangles_6_def getVector2DListAttribute_def)
  have e6: "isNodeEmpty triangles_6"
    by (simp add: triangles_6_def example_node_def isNodeEmpty_def)
  have l: "length (heap example_importer) = 1"
    by (simp add: example_importer_def)
  show ?thesis
    using readTriangleSet2D_multiple_of_3 [OF u4 p4, of example_metadata example_importer]
      readTriangleSet2D_multiple_of_3 [OF u6 p6, of example_metadata example_importer]
      u4 u6 p4 p6 e6 l
    by simp
qed

subsection \<open>Line strips\<close>

lemma line_pairs_length: "length (line_pairs p0 ps) = 2 * length ps"
  by (induction p0 ps rule: line_pairs.induct) simp_all

lemma line_pairs_even: "i < length ps \<Longrightarrow> line_pairs p0 ps ! (2 * i) = ps ! i"
proof (induction p0 ps arbitrary: i rule: line_pairs.induct)
  case (3 p0 p q ps)
  then show ?case by (cases i) simp_all
qed simp_all

lemma line_pairs_odd:
  "i < length ps \<Longrightarrow>
   line_pairs p0 ps ! Suc (2 * i) = (if Suc i < length ps then ps ! Suc i else p0)"
proof (induction p0 ps arbitrary: i rule: line_pairs.induct)
  case (3 p0 p q ps)
  then show ?case by (cases i) simp_all
qed simp_all

lemma extend_point_to_line_closed:
  assumes "2 \<le> length P"
  shows "\<exists>line. extend_point_to_line P = Inr line
           \<and> length line = 2 * length P
           \<and> (\<forall>i<length P. line ! (2 * i) = P ! i
                \<and> line ! (2 * i + 1) = P ! ((i + 1) mod length P))"
proof -
  from assms obtain p0 p1 ps where P: "P = p0 # p1 # ps"
    by (cases P; cases "tl P") auto
  have run: "extend_point_to_line P = Inr (line_pairs p0 P)"
    by (simp add: extend_point_to_line_def P)
  have "line_pairs p0 P ! (2 * i) = P ! i
      \<and> line_pairs p0 P ! (2 * i + 1) = P ! ((i + 1) mod length P)" if "i < length P" for i
  proof (cases "Suc i < length P")
    case True
    with that show ?thesis
      using line_pairs_even [of i P p0] line_pairs_odd [of i P p0] by simp
  next
    case False
    with that have "Suc i = length P" by simp
    then have "(i + 1) mod length P = 0" by simp
    moreover have "P ! 0 = p0" by (simp add: P)
    ultimately show ?thesis
      using that False line_pairs_even [of i P p0] line_pairs_odd [of i P p0] by simp
  qed
  with run show ?thesis
    by (simp add: line_pairs_length)
qed

lemma example_arc_length [simp]: "length (example_arc a b r n) = 4"
  by (simp add: example_arc_def)

subsection \<open>Arc2D and Circle2D\<close>

text \<open>
  C8. On the definition path the Arc2D and the Circle2D reader turn the \<open>k\<close> points
  \<open>P\<^sub>0 \<dots> P\<^sub>k\<^sub>-\<^sub>1\<close> of the tessellation (at least two, as the line strip requires) into
  \<open>2k\<close> vertices, the pair at the positions \<open>(2i, 2i+1)\<close> being the edge
  \<open>(P\<^sub>i, P\<^sub>(\<^sub>i\<^sub>+\<^sub>1\<^sub>) \<^sub>m\<^sub>o\<^sub>d \<^sub>k)\<close>, the closing edge \<open>(P\<^sub>k\<^sub>-\<^sub>1, P\<^sub>0)\<close> included, and set
  \<open>NumIndices\<close> to 2. The line strip is the one of the spec, \<open>extend_point_to_line\<close>
  not being among the sources.
\<close>

theorem readArc2D_readCircle2D_line_strip:
  assumes "use_of node = []"
    and "arc = make_arc2D (getFloatAttribute node ''startAngle'' 0)
           (getFloatAttribute node ''endAngle'' AI_MATH_HALF_PI_F)
           (getFloatAttribute node ''radius'' 1) 10"
    and "circle = make_arc2D 0 0 (getFloatAttribute node ''radius'' 1) 10"
  shows "(2 \<le> length arc \<longrightarrow>
            (\<exists>obj. readArc2D childrenReadMetadata make_arc2D node s =
                attach_and_register childrenReadMetadata node ''Arc2D'' (length (heap s))
                  (store_new obj s)
              \<and> length (Vertices obj) = 2 * length arc
              \<and> (\<forall>i<length arc. Vertices obj ! (2 * i) = arc ! i
                    \<and> Vertices obj ! (2 * i + 1) = arc ! ((i + 1) mod length arc))
              \<and> NumIndices obj = 2))
       \<and> (2 \<le> length circle \<longrightarrow>
            (\<exists>obj. readCircle2D childrenReadMetadata make_arc2D node s =
                attach_and_register childrenReadMetadata node ''Circle2D'' (length (heap s))
                  (store_new obj s)
              \<and> length (Vertices obj) = 2 * length circle
              \<and> (\<forall>i<length circle. Vertices obj ! (2 * i) = circle ! i
                    \<and> Vertices obj ! (2 * i + 1) = circle ! ((i + 1) mod length circle))
              \<and> NumIndices obj = 2))"
proof (intro conjI impI)
  assume "2 \<le> length arc"
  from extend_point_to_line_closed [OF this] obtain line where
    line: "extend_point_to_line arc = Inr line" "length line = 2 * length arc"
      "\<forall>i<length arc. line ! (2 * i) = arc ! i \<and> line ! (2 * i + 1) = arc ! ((i + 1) mod length arc)"
    by blast
  define obj where "obj =
    (set_ID (def_of node) (new_X3DNodeElementGeometry2D ENET_Arc2D (mNodeElementCur s)))
      \<lparr>Vertices := line, NumIndices := 2\<rparr>"
  have "readArc2D childrenReadMetadata make_arc2D node s =
      attach_and_register childrenReadMetadata node ''Arc2D'' (length (heap s)) (store_new obj s)"
    using assms(1) line(1) assms(2) [symmetric]
    by (simp add: readArc2D_def obj_def Let_def split_beta set_ID_def
        new_X3DNodeElementGeometry2D_def)
  moreover have "Vertices obj = line" "NumIndices obj = 2"
    by (simp_all add: obj_def)
  ultimately show "\<exists>obj. readArc2D childrenReadMetadata make_arc2D node s =
        attach_and_register childrenReadMetadata node ''Arc2D'' (length (heap s))
          (store_new obj s)
      \<and> length (Vertices obj) = 2 * length arc
      \<and> (\<forall>i<length arc. Vertices obj ! (2 * i) = arc ! i
            \<and> Vertices obj ! (2 * i + 1) = arc ! ((i + 1) mod length arc))
      \<and> NumIndices obj = 2"
    using line(2,3) by (intro exI [of _ obj]) simp
next
  assume "2 \<le> length circle"
  from extend_point_to_line_closed [OF this] obtain line where
    line: "extend_point_to_line circle = Inr line" "length line = 2 * length circle"
      "\<forall>i<length circle. line ! (2 * i) = circle ! i
         \<and> line ! (2 * i + 1) = circle ! ((i + 1) mod length circle)"
    by blast
  define obj where "obj =
    (set_ID (def_of node) (new_X3DNodeElementGeometry2D ENET_Circle2D (mNodeElementCur s)))
      \<lparr>Vertices := line, NumIndices := 2\<rparr>"
  have "readCircle2D childrenReadMetadata make_arc2D node s =
      attach_and_register childrenReadMetadata node ''Circle2D'' (length (heap s))
        (store_new obj s)"
    using assms(1) line(1) assms(3) [symmetric]
    by (simp add: readCircle2D_def obj_def Let_def split_beta set_ID_def
        new_X3DNodeElementGeometry2D_def)
  moreover have "Vertices obj = line" "NumIndices obj = 2"
    by (simp_all add: obj_def)
  ultimately show "\<exists>obj. readCircle2D childrenReadMetadata make_arc2D node s =
        attach_and_register childrenReadMetadata node ''Circle2D'' (length (heap s))
          (store_new obj s)
      \<and> length (Vertices obj) = 2 * length circle
      \<and> (\<forall>i<length circle. Vertices obj ! (2 * i) = circle ! i
            \<and> Vertices obj ! (2 * i + 1) = circle ! ((i + 1) mod length circle))
      \<and> NumIndices obj = 2"
    using line(2,3) by (intro exI [of _ obj]) simp
qed

theorem readArc2D_readCircle2D_line_strip_witness:
  "use_of arc_0_1 = []
   \<and> 2 \<le> length (example_arc 0 1 1 10)
   \<and> readArc2D example_metadata example_arc arc_0_1 example_importer =
       Inr \<lparr>heap = [(new_X3DNodeElementGeometry2D ENET_Group 0)\<lparr>Children := [1]\<rparr>,
                    (new_X3DNodeElementGeometry2D ENET_Arc2D 0)
                      \<lparr>Vertices := [(1, 0, 0), (0, 1, 0), (0, 1, 0), (- 1, 0, 0),
                                    (- 1, 0, 0), (0, - 1, 0), (0, - 1, 0), (1, 0, 0)],
                       NumIndices := 2\<rparr>],
            mNodeElementCur = 0, NodeElement_List = [0, 1]\<rparr>
   \<and> readCircle2D example_metadata example_arc arc_0_1 example_importer =
       Inr \<lparr>heap = [(new_X3DNodeElementGeometry2D ENET_Group 0)\<lparr>Children := [1]\<rparr>,
                    (new_X3DNodeElementGeometry2D ENET_Circle2D 0)
                      \<lparr>Vertices := [(1, 0, 0), (0, 1, 0), (0, 1, 0), (- 1, 0, 0),
                                    (- 1, 0, 0), (0, - 1, 0), (0, - 1, 0), (1, 0, 0)],
                       NumIndices := 2\<rparr>],
            mNodeElementCur = 0, NodeElement_List = [0, 1]\<rparr>"
proof -
  have u: "use_of arc_0_1 = []"
    by (simp add: arc_0_1_def example_node_def MACRO_ATTRREAD_CHECKUSEDEF_RET_def
        getStdStrAttribute_def)
  have d: "def_of arc_0_1 = []"
    by (simp add: arc_0_1_def example_node_def MACRO_ATTRREAD_CHECKUSEDEF_RET_def
        getStdStrAttribute_def)
  have e: "isNodeEmpty arc_0_1"
    by (simp add: arc_0_1_def example_node_def isNodeEmpty_def)
  have f: "getFloatAttribute arc_0_1 ''startAngle'' 0 = 0"
    "getFloatAttribute arc_0_1 ''endAngle'' AI_MATH_HALF_PI_F = 1"
    "getFloatAttribute arc_0_1 ''radius'' 1 = 1"
    by (simp_all add: arc_0_1_def example_node_def getFloatAttribute_def)
  have st: "extend_point_to_line (example_arc a b 1 n) =
      Inr [(1, 0, 0), (0, 1, 0), (0, 1, 0), (- 1, 0, 0), (- 1, 0, 0), (0, - 1, 0), (0, - 1, 0),
           (1, 0, 0)]" for a b n
    by (simp add: extend_point_to_line_def example_arc_def)
  have a: "readArc2D example_metadata example_arc arc_0_1 example_importer =
       Inr \<lparr>heap = [(new_X3DNodeElementGeometry2D ENET_Group 0)\<lparr>Children := [1]\<rparr>,
                    (new_X3DNodeElementGeometry2D ENET_Arc2D 0)
                      \<lparr>Vertices := [(1, 0, 0), (0, 1, 0), (0, 1, 0), (- 1, 0, 0),
                                    (- 1, 0, 0), (0, - 1, 0), (0, - 1, 0), (1, 0, 0)],
                       NumIndices := 2\<rparr>],
            mNodeElementCur = 0, NodeElement_List = [0, 1]\<rparr>"
    using u d e f
    by (simp add: readArc2D_def Let_def split_beta st attach_and_register_def set_ID_def
        store_new_def push_child_def push_NodeElement_List_def example_importer_def
        new_X3DNodeElementGeometry2D_def)
  have c: "readCircle2D example_metadata example_arc arc_0_1 example_importer =
       Inr \<lparr>heap = [(new_X3DNodeElementGeometry2D ENET_Group 0)\<lparr>Children := [1]\<rparr>,
                    (new_X3DNodeElementGeometry2D ENET_Circle2D 0)
                      \<lparr>Vertices := [(1, 0, 0), (0, 1, 0), (0, 1, 0), (- 1, 0, 0),
                                    (- 1, 0, 0), (0, - 1, 0), (0, - 1, 0), (1, 0, 0)],
                       NumIndices := 2\<rparr>],
            mNodeElementCur = 0, NodeElement_List = [0, 1]\<rparr>"
    using u d e f
    by (simp add: readCircle2D_def Let_def split_beta st attach_and_register_def set_ID_def
        store_new_def push_child_def push_NodeElement_List_def example_importer_def
        new_X3DNodeElementGeometry2D_def)
  note readArc2D_readCircle2D_line_strip [OF u refl refl, of example_arc example_metadata
      example_importer]
  with u a c show ?thesis by simp
qed

subsection \<open>Disk2D: the quad list\<close>

lemma quad_loop_length:
  "length (quad_loop end_i end_o it_i it_o vlist) = length vlist + 4 * length it_i"
  by (induction it_i arbitrary: it_o vlist) simp_all

lemma quad_loop_append:
  "quad_loop end_i end_o it_i it_o vlist = vlist @ quad_loop end_i end_o it_i it_o []"
proof (induction it_i arbitrary: it_o vlist)
  case Nil
  show ?case by simp
next
  case (Cons p it_i)
  show ?case
    using Cons [of "tl it_o" "vlist @ [p, list_front end_o it_o, list_front end_o (tl it_o),
        list_front end_i it_i]"]
      Cons [of "tl it_o" "[p, list_front end_o it_o, list_front end_o (tl it_o),
        list_front end_i it_i]"]
    by simp
qed

text \<open>
  The loop on a ring of one point \<open>[p]\<close>, that is its last pass on any ring: both
  iterators are advanced to \<open>end()\<close> and read there.
\<close>

lemma quad_loop_last_pass:
  "quad_loop end_i end_o [p] [q] vlist = vlist @ [p, q, end_o, end_i]"
  by (simp add: list_front_def)

lemma quad_loop_step:
  "quad_loop end_i end_o (p # p' # it_i) (q # q' # it_o) vlist =
     quad_loop end_i end_o (p' # it_i) (q' # it_o) (vlist @ [p, q, q', p'])"
  by (simp add: list_front_def)

text \<open>
  On two rings of \<open>k\<close> points the loop runs \<open>k\<close> times: it emits the quads
  \<open>(inner[j], outer[j], outer[j+1], inner[j+1])\<close> for \<open>j < k - 1\<close> and then a quad whose
  last two vertices are read through \<open>end()\<close>.
\<close>

lemma quad_loop_rings:
  assumes "length it_o = length it_i" and "it_i \<noteq> []"
  shows "quad_loop end_i end_o it_i it_o vlist =
           vlist
           @ concat (map (\<lambda>j. [it_i ! j, it_o ! j, it_o ! Suc j, it_i ! Suc j])
                       [0..<length it_i - 1])
           @ [last it_i, last it_o, end_o, end_i]"
  using assms
proof (induction it_i arbitrary: it_o vlist)
  case Nil
  then show ?case by simp
next
  case (Cons p it_i)
  then obtain q it_o' where o: "it_o = q # it_o'" and l: "length it_o' = length it_i"
    by (cases it_o) auto
  show ?case
  proof (cases it_i)
    case Nil
    with l o show ?thesis by (simp add: list_front_def)
  next
    case (Cons p' it_i')
    with l obtain q' it_o'' where o': "it_o' = q' # it_o''"
      by (cases it_o') auto
    have ne: "it_i \<noteq> []" using Cons by simp
    have "[0..<Suc (length it_i')] = 0 # map Suc [0..<length it_i']"
      by (simp only: map_Suc_upt upt_conv_Cons [OF zero_less_Suc])
    then have up: "[0..<length (p # it_i) - 1] = 0 # map Suc [0..<length it_i - 1]"
      using Cons by simp
    show ?thesis
      unfolding o up
      using Cons.IH [OF l ne, of "vlist @ [p, q, q', p']"] Cons o'
      by (simp add: list_front_def comp_def)
  qed
qed

lemma list_front_nonempty: "l \<noteq> [] \<Longrightarrow> list_front past_end l = l ! 0"
  by (cases l) (simp_all add: list_front_def)

lemma list_back_nonempty: "l \<noteq> [] \<Longrightarrow> list_back past_end l = l ! (length l - 1)"
  by (simp add: list_back_def last_conv_nth)

lemma length_concat_quads:
  "length (concat (map (\<lambda>j. [a j, b j, c j, d j]) [0..<n])) = 4 * n"
  by (induction n) simp_all

text \<open>
  C1. For \<open>0 < innerRadius < outerRadius\<close> and two rings of \<open>k \<ge> 2\<close> points each, the
  Disk2D reader does not emit \<open>k\<close> quads. Its loop, headed "add all quads except last",
  runs until the inner iterator is at \<open>end()\<close>, that is \<open>k\<close> times and not \<open>k - 1\<close>
  times: after the quads \<open>(inner[j], outer[j], outer[j+1], inner[j+1])\<close> for \<open>j < k - 1\<close>
  its last pass emits \<open>inner[k-1]\<close>, \<open>outer[k-1]\<close> and two values read through the
  \<open>end()\<close> iterators of the two rings; then the wrapping quad
  \<open>(inner[k-1], outer[k-1], outer[0], inner[0])\<close> follows. The element has
  \<open>4 (k + 1)\<close> vertices and \<open>NumIndices\<close> 4.
\<close>

theorem readDisk2D_quad_list:
  assumes "use_of node = []"
    and "innerRadius = getFloatAttribute node ''innerRadius'' 0"
    and "outerRadius = getFloatAttribute node ''outerRadius'' 1"
    and "0 < innerRadius" and "innerRadius < outerRadius"
    and "tlist_i = make_arc2D 0 0 innerRadius 10"
    and "tlist_o = make_arc2D 0 0 outerRadius 10"
    and "length tlist_o = length tlist_i" and "2 \<le> length tlist_i"
    and "k = length tlist_i"
  shows "\<exists>obj. readDisk2D childrenReadMetadata make_arc2D end_i end_o node s =
             attach_and_register childrenReadMetadata node ''Disk2D'' (length (heap s))
               (store_new obj s)
           \<and> Vertices obj =
               concat (map (\<lambda>j. [tlist_i ! j, tlist_o ! j, tlist_o ! Suc j, tlist_i ! Suc j])
                         [0..<k - 1])
               @ [tlist_i ! (k - 1), tlist_o ! (k - 1), end_o, end_i]
               @ [tlist_i ! (k - 1), tlist_o ! (k - 1), tlist_o ! 0, tlist_i ! 0]
           \<and> length (Vertices obj) = 4 * (k + 1)
           \<and> length (Vertices obj) \<noteq> 4 * k
           \<and> NumIndices obj = 4"
proof -
  define quads where "quads =
    concat (map (\<lambda>j. [tlist_i ! j, tlist_o ! j, tlist_o ! Suc j, tlist_i ! Suc j]) [0..<k - 1])
    @ [tlist_i ! (k - 1), tlist_o ! (k - 1), end_o, end_i]
    @ [tlist_i ! (k - 1), tlist_o ! (k - 1), tlist_o ! 0, tlist_i ! 0]"
  define obj where "obj =
    (set_ID (def_of node) (new_X3DNodeElementGeometry2D ENET_Disk2D (mNodeElementCur s)))
      \<lparr>Vertices := quads, NumIndices := 4, Solid := getBoolAttribute node ''solid'' False\<rparr>"
  have ne: "tlist_i \<noteq> []" "tlist_o \<noteq> []"
    using assms(8,9) by auto
  have loop: "quad_loop end_i end_o tlist_i tlist_o [] =
      concat (map (\<lambda>j. [tlist_i ! j, tlist_o ! j, tlist_o ! Suc j, tlist_i ! Suc j]) [0..<k - 1])
      @ [tlist_i ! (k - 1), tlist_o ! (k - 1), end_o, end_i]"
    using quad_loop_rings [OF assms(8) ne(1), of end_i end_o "[]"] ne assms(8,10)
    by (simp add: last_conv_nth)
  have vl: "quad_loop end_i end_o tlist_i tlist_o []
      @ [list_back end_i tlist_i, list_back end_o tlist_o, list_front end_o tlist_o,
         list_front end_i tlist_i] = quads"
    using ne assms(8,10)
    by (simp add: loop quads_def list_front_nonempty list_back_nonempty)
  have run: "readDisk2D childrenReadMetadata make_arc2D end_i end_o node s =
      attach_and_register childrenReadMetadata node ''Disk2D'' (length (heap s))
        (store_new obj s)"
    using assms(1,4,5,9) vl
    unfolding assms(2,3,6,7)
    by (simp add: readDisk2D_def obj_def Let_def split_beta set_ID_def
        new_X3DNodeElementGeometry2D_def)
  have len: "length quads = 4 * (k + 1)"
    using assms(9,10) by (simp add: quads_def length_concat_quads)
  have "Vertices obj = quads" "NumIndices obj = 4"
    by (simp_all add: obj_def)
  with run len show ?thesis
    unfolding quads_def by (intro exI [of _ obj]) simp
qed

theorem readDisk2D_quad_list_witness:
  "use_of disk_1_2 = []
   \<and> getFloatAttribute disk_1_2 ''innerRadius'' 0 = 1
   \<and> getFloatAttribute disk_1_2 ''outerRadius'' 1 = 2
   \<and> length (example_arc 0 0 2 10) = length (example_arc 0 0 1 10)
   \<and> 2 \<le> length (example_arc 0 0 1 10)
   \<and> readDisk2D example_metadata example_arc (7, 7, 7) (9, 9, 9) disk_1_2 example_importer =
       Inr \<lparr>heap = [(new_X3DNodeElementGeometry2D ENET_Group 0)\<lparr>Children := [1]\<rparr>,
                    (new_X3DNodeElementGeometry2D ENET_Disk2D 0)
                      \<lparr>Vertices :=
                         [(1, 0, 0), (2, 0, 0), (0, 2, 0), (0, 1, 0),
                          (0, 1, 0), (0, 2, 0), (- 2, 0, 0), (- 1, 0, 0),
                          (- 1, 0, 0), (- 2, 0, 0), (0, - 2, 0), (0, - 1, 0),
                          (0, - 1, 0), (0, - 2, 0), (9, 9, 9), (7, 7, 7),
                          (0, - 1, 0), (0, - 2, 0), (2, 0, 0), (1, 0, 0)],
                       NumIndices := 4\<rparr>],
            mNodeElementCur = 0, NodeElement_List = [0, 1]\<rparr>"
proof -
  have u: "use_of disk_1_2 = []" and d: "def_of disk_1_2 = []"
    by (simp_all add: disk_1_2_def example_node_def MACRO_ATTRREAD_CHECKUSEDEF_RET_def
        getStdStrAttribute_def)
  have e: "isNodeEmpty disk_1_2"
    by (simp add: disk_1_2_def example_node_def isNodeEmpty_def)
  have f: "getFloatAttribute disk_1_2 ''innerRadius'' 0 = 1"
    "getFloatAttribute disk_1_2 ''outerRadius'' 1 = 2"
    by (simp_all add: disk_1_2_def example_node_def getFloatAttribute_def)
  have b: "getBoolAttribute disk_1_2 ''solid'' False = False"
    by (simp add: disk_1_2_def example_node_def getBoolAttribute_def)
  have r: "readDisk2D example_metadata example_arc (7, 7, 7) (9, 9, 9) disk_1_2 example_importer =
       Inr \<lparr>heap = [(new_X3DNodeElementGeometry2D ENET_Group 0)\<lparr>Children := [1]\<rparr>,
                    (new_X3DNodeElementGeometry2D ENET_Disk2D 0)
                      \<lparr>Vertices :=
                         [(1, 0, 0), (2, 0, 0), (0, 2, 0), (0, 1, 0),
                          (0, 1, 0), (0, 2, 0), (- 2, 0, 0), (- 1, 0, 0),
                          (- 1, 0, 0), (- 2, 0, 0), (0, - 2, 0), (0, - 1, 0),
                          (0, - 1, 0), (0, - 2, 0), (9, 9, 9), (7, 7, 7),
                          (0, - 1, 0), (0, - 2, 0), (2, 0, 0), (1, 0, 0)],
                       NumIndices := 4\<rparr>],
            mNodeElementCur = 0, NodeElement_List = [0, 1]\<rparr>"
    using u d e f b
    by (simp add: readDisk2D_def Let_def split_beta attach_and_register_def set_ID_def
        store_new_def push_child_def push_NodeElement_List_def example_importer_def
        new_X3DNodeElementGeometry2D_def example_arc_def list_front_def list_back_def)
  have i: "(0::real) < 1" "(1::real) < 2" by simp_all
  note readDisk2D_quad_list [OF u f(1) [symmetric] f(2) [symmetric] i refl refl _ _ refl,
      of example_arc example_metadata "(7, 7, 7)" "(9, 9, 9)" example_importer]
  with u f r show ?thesis by simp
qed

subsection \<open>ArcClose2D\<close>

lemma float_sub_1_0: "float_sub 1 0 = 1"
  by (simp add: float_eval)

text \<open>The reader reads \<open>endAngle\<close> twice.\<close>

lemma getFloatAttribute_twice:
  "getFloatAttribute node name (getFloatAttribute node name val) =
     getFloatAttribute node name val"
  by (simp add: getFloatAttribute_def split: option.splits)

text \<open>The definition path of the ArcClose2D reader, branch by branch.\<close>

lemma readArcClose2D_circle:
  assumes "use_of node = []"
    and "startAngle = getFloatAttribute node ''startAngle'' 0"
    and "endAngle = getFloatAttribute node ''endAngle'' AI_MATH_HALF_PI_F"
    and "arc = make_arc2D startAngle endAngle (getFloatAttribute node ''radius'' 1) 10"
    and "\<bar>float_sub endAngle startAngle\<bar> \<ge> AI_MATH_TWO_PI_F \<or> endAngle = startAngle"
  shows "readArcClose2D childrenReadMetadata make_arc2D past_end node s =
           attach_and_register childrenReadMetadata node ''ArcClose2D'' (length (heap s))
             (store_new
               ((set_ID (def_of node)
                   (new_X3DNodeElementGeometry2D ENET_ArcClose2D (mNodeElementCur s)))
                \<lparr>Solid := getBoolAttribute node ''solid'' False, Vertices := arc,
                 NumIndices := length arc\<rparr>) s)"
  using assms(1,5) unfolding assms(2,3,4)
  by (auto simp: readArcClose2D_def Let_def split_beta set_ID_def
      new_X3DNodeElementGeometry2D_def getFloatAttribute_twice)

lemma readArcClose2D_pie:
  assumes "use_of node = []"
    and "startAngle = getFloatAttribute node ''startAngle'' 0"
    and "endAngle = getFloatAttribute node ''endAngle'' AI_MATH_HALF_PI_F"
    and "arc = make_arc2D startAngle endAngle (getFloatAttribute node ''radius'' 1) 10"
    and "\<not> (\<bar>float_sub endAngle startAngle\<bar> \<ge> AI_MATH_TWO_PI_F \<or> endAngle = startAngle)"
    and "closureType = getStdStrAttribute node ''closureType'' ''PIE''"
    and "closureType = ''PIE'' \<or> closureType = quoted ''PIE''"
  shows "readArcClose2D childrenReadMetadata make_arc2D past_end node s =
           attach_and_register childrenReadMetadata node ''ArcClose2D'' (length (heap s))
             (store_new
               ((set_ID (def_of node)
                   (new_X3DNodeElementGeometry2D ENET_ArcClose2D (mNodeElementCur s)))
                \<lparr>Solid := getBoolAttribute node ''solid'' False,
                 Vertices := arc @ [(0, 0, 0), list_front past_end (arc @ [(0, 0, 0)])],
                 NumIndices := length arc + 2\<rparr>) s)"
  using assms(1,5,7) unfolding assms(2,3,4,6)
  by (auto simp: readArcClose2D_def Let_def split_beta set_ID_def
      new_X3DNodeElementGeometry2D_def getFloatAttribute_twice)

lemma readArcClose2D_chord:
  assumes "use_of node = []"
    and "startAngle = getFloatAttribute node ''startAngle'' 0"
    and "endAngle = getFloatAttribute node ''endAngle'' AI_MATH_HALF_PI_F"
    and "arc = make_arc2D startAngle endAngle (getFloatAttribute node ''radius'' 1) 10"
    and "\<not> (\<bar>float_sub endAngle startAngle\<bar> \<ge> AI_MATH_TWO_PI_F \<or> endAngle = startAngle)"
    and "closureType = getStdStrAttribute node ''closureType'' ''PIE''"
    and "closureType = ''CHORD'' \<or> closureType = quoted ''CHORD''"
  shows "readArcClose2D childrenReadMetadata make_arc2D past_end node s =
           attach_and_register childrenReadMetadata node ''ArcClose2D'' (length (heap s))
             (store_new
               ((set_ID (def_of node)
                   (new_X3DNodeElementGeometry2D ENET_ArcClose2D (mNodeElementCur s)))
                \<lparr>Solid := getBoolAttribute node ''solid'' False,
                 Vertices := arc @ [list_front past_end arc],
                 NumIndices := length arc + 1\<rparr>) s)"
  using assms(1,5,7) unfolding assms(2,3,4,6)
  by (auto simp: readArcClose2D_def Let_def split_beta set_ID_def quoted_def
      new_X3DNodeElementGeometry2D_def getFloatAttribute_twice)

lemma readArcClose2D_invalid:
  assumes "use_of node = []"
    and "startAngle = getFloatAttribute node ''startAngle'' 0"
    and "endAngle = getFloatAttribute node ''endAngle'' AI_MATH_HALF_PI_F"
    and "arc = make_arc2D startAngle endAngle (getFloatAttribute node ''radius'' 1) 10"
    and "\<not> (\<bar>float_sub endAngle startAngle\<bar> \<ge> AI_MATH_TWO_PI_F \<or> endAngle = startAngle)"
    and "closureType = getStdStrAttribute node ''closureType'' ''PIE''"
    and "closureType \<noteq> ''PIE''" and "closureType \<noteq> quoted ''PIE''"
    and "closureType \<noteq> ''CHORD''" and "closureType \<noteq> quoted ''CHORD''"
  shows "readArcClose2D childrenReadMetadata make_arc2D past_end node s =
           Inl (IncorrectAttrValue ''ArcClose2D'' ''closureType'',
                store_new
                  ((set_ID (def_of node)
                      (new_X3DNodeElementGeometry2D ENET_ArcClose2D (mNodeElementCur s)))
                   \<lparr>Solid := getBoolAttribute node ''solid'' False, Vertices := arc\<rparr>) s)"
  using assms(1,5,7,8,9,10) unfolding assms(2,3,4,6)
  by (auto simp: readArcClose2D_def Let_def split_beta set_ID_def
      new_X3DNodeElementGeometry2D_def getFloatAttribute_twice)

lemma example_node_attributes [simp]:
  "getStdStrAttribute (example_node\<lparr>floatAttr := f\<rparr>) name val = val"
  "getBoolAttribute (example_node\<lparr>floatAttr := f\<rparr>) name b = b"
  "getBoolAttribute (example_node\<lparr>strAttr := g, floatAttr := f\<rparr>) name b = b"
  "isNodeEmpty (example_node\<lparr>floatAttr := f\<rparr>)"
  "isNodeEmpty (example_node\<lparr>strAttr := g, floatAttr := f\<rparr>)"
  by (simp_all add: example_node_def getStdStrAttribute_def getBoolAttribute_def isNodeEmpty_def)

lemmas example_run =
  MACRO_ATTRREAD_CHECKUSEDEF_RET_def getStdStrAttribute_def getFloatAttribute_def
  getBoolAttribute_def isNodeEmpty_def example_node_def example_importer_def example_arc_def
  attach_and_register_def set_ID_def store_new_def push_child_def push_NodeElement_List_def
  new_X3DNodeElementGeometry2D_def list_front_def Let_def

text \<open>
  The angles \<open>-0.3f\<close> and \<open>5.9831853f\<close>, whose binary32 difference is
  AI_MATH_TWO_PI_F: the range is a full circle for the reader, whatever the closureType.
\<close>

lemma readArcClose2D_near_two_pi:
  "readArcClose2D example_metadata example_arc (9, 9, 9) arcclose_near_two_pi example_importer =
     Inr \<lparr>heap = [(new_X3DNodeElementGeometry2D ENET_Group 0)\<lparr>Children := [1]\<rparr>,
                  (new_X3DNodeElementGeometry2D ENET_ArcClose2D 0)
                    \<lparr>Vertices := [(1, 0, 0), (0, 1, 0), (- 1, 0, 0), (0, - 1, 0)],
                     NumIndices := 4\<rparr>],
          mNodeElementCur = 0, NodeElement_List = [0, 1]\<rparr>"
  by (simp add: readArcClose2D_def arcclose_near_two_pi_def example_run float_eval
      AI_MATH_TWO_PI_F_def)

lemma readArcClose2D_wedge_near_two_pi:
  "readArcClose2D example_metadata example_arc (9, 9, 9) arcclose_wedge_near_two_pi
     example_importer =
     Inr \<lparr>heap = [(new_X3DNodeElementGeometry2D ENET_Group 0)\<lparr>Children := [1]\<rparr>,
                  (new_X3DNodeElementGeometry2D ENET_ArcClose2D 0)
                    \<lparr>Vertices := [(1, 0, 0), (0, 1, 0), (- 1, 0, 0), (0, - 1, 0)],
                     NumIndices := 4\<rparr>],
          mNodeElementCur = 0, NodeElement_List = [0, 1]\<rparr>"
  by (simp add: readArcClose2D_def arcclose_wedge_near_two_pi_def example_run float_eval
      AI_MATH_TWO_PI_F_def)

text \<open>A double-quoted PIE is taken for PIE.\<close>

lemma readArcClose2D_quoted_pie:
  "readArcClose2D example_metadata example_arc (9, 9, 9) arcclose_quoted_pie example_importer =
     Inr \<lparr>heap = [(new_X3DNodeElementGeometry2D ENET_Group 0)\<lparr>Children := [1]\<rparr>,
                  (new_X3DNodeElementGeometry2D ENET_ArcClose2D 0)
                    \<lparr>Vertices := [(1, 0, 0), (0, 1, 0), (- 1, 0, 0), (0, - 1, 0),
                                  (0, 0, 0), (1, 0, 0)],
                     NumIndices := 6\<rparr>],
          mNodeElementCur = 0, NodeElement_List = [0, 1]\<rparr>"
  by (simp add: readArcClose2D_def arcclose_quoted_pie_def example_run float_eval
      AI_MATH_TWO_PI_F_def)

text \<open>
  C2, as stated, fails: with closureType PIE the reader does not put the origin before
  the arc points. For the arc from 0 to 1 and the four points of the example tessellation
  the vertices are the arc points, then the origin, then the first arc point. And the
  full circle is decided on the binary32 difference of the angles: \<open>-0.3f\<close> and
  \<open>5.9831853f\<close> differ by less than AI_MATH_TWO_PI_F, their binary32 difference is
  AI_MATH_TWO_PI_F, and no closure point is added.
\<close>

theorem readArcClose2D_pie_counterexample:
  "getStdStrAttribute arcclose_pie ''closureType'' ''PIE'' = ''PIE''
   \<and> readArcClose2D example_metadata example_arc (9, 9, 9) arcclose_pie example_importer =
       Inr \<lparr>heap = [(new_X3DNodeElementGeometry2D ENET_Group 0)\<lparr>Children := [1]\<rparr>,
                    (new_X3DNodeElementGeometry2D ENET_ArcClose2D 0)
                      \<lparr>Vertices := [(1, 0, 0), (0, 1, 0), (- 1, 0, 0), (0, - 1, 0),
                                    (0, 0, 0), (1, 0, 0)],
                       NumIndices := 6\<rparr>],
            mNodeElementCur = 0, NodeElement_List = [0, 1]\<rparr>
   \<and> [(1, 0, 0), (0, 1, 0), (- 1, 0, 0), (0, - 1, 0), (0, 0, 0), (1, 0, 0)]
       \<noteq> [(0, 0, 0)] @ example_arc 0 1 1 10 @ [(1, 0, 0)]
   \<and> getFloatAttribute arcclose_near_two_pi ''startAngle'' 0 = - 5033165 / 2 ^ 24
   \<and> getFloatAttribute arcclose_near_two_pi ''endAngle'' AI_MATH_HALF_PI_F = 12547649 / 2 ^ 21
   \<and> \<bar>12547649 / 2 ^ 21 - (- 5033165 / 2 ^ 24)\<bar> < AI_MATH_TWO_PI_F
   \<and> (12547649 / 2 ^ 21 :: real) \<noteq> - 5033165 / 2 ^ 24
   \<and> float_sub (12547649 / 2 ^ 21) (- 5033165 / 2 ^ 24) = AI_MATH_TWO_PI_F
   \<and> readArcClose2D example_metadata example_arc (9, 9, 9) arcclose_near_two_pi
         example_importer =
       Inr \<lparr>heap = [(new_X3DNodeElementGeometry2D ENET_Group 0)\<lparr>Children := [1]\<rparr>,
                    (new_X3DNodeElementGeometry2D ENET_ArcClose2D 0)
                      \<lparr>Vertices := [(1, 0, 0), (0, 1, 0), (- 1, 0, 0), (0, - 1, 0)],
                       NumIndices := 4\<rparr>],
            mNodeElementCur = 0, NodeElement_List = [0, 1]\<rparr>"
proof -
  have g: "getFloatAttribute arcclose_near_two_pi ''startAngle'' 0 = - 5033165 / 2 ^ 24"
    "getFloatAttribute arcclose_near_two_pi ''endAngle'' AI_MATH_HALF_PI_F = 12547649 / 2 ^ 21"
    by (simp_all add: arcclose_near_two_pi_def example_node_def getFloatAttribute_def)
  have u: "use_of arcclose_pie = []" and d: "def_of arcclose_pie = []"
    by (simp_all add: arcclose_pie_def MACRO_ATTRREAD_CHECKUSEDEF_RET_def)
  have f: "getFloatAttribute arcclose_pie ''startAngle'' 0 = 0"
    "getFloatAttribute arcclose_pie ''endAngle'' AI_MATH_HALF_PI_F = 1"
    "getFloatAttribute arcclose_pie ''radius'' 1 = 1"
    by (simp_all add: arcclose_pie_def example_node_def getFloatAttribute_def)
  have c: "getStdStrAttribute arcclose_pie ''closureType'' ''PIE'' = ''PIE''"
    by (simp add: arcclose_pie_def)
  have n: "\<not> (\<bar>float_sub 1 0\<bar> \<ge> AI_MATH_TWO_PI_F \<or> (1::real) = 0)"
    by (simp add: float_sub_1_0 AI_MATH_TWO_PI_F_def)
  have "readArcClose2D example_metadata example_arc (9, 9, 9) arcclose_pie example_importer =
      attach_and_register example_metadata arcclose_pie ''ArcClose2D''
        (length (heap example_importer))
        (store_new
          ((set_ID (def_of arcclose_pie)
              (new_X3DNodeElementGeometry2D ENET_ArcClose2D (mNodeElementCur example_importer)))
           \<lparr>Solid := getBoolAttribute arcclose_pie ''solid'' False,
            Vertices := example_arc 0 1 1 10
              @ [(0, 0, 0), list_front (9, 9, 9) (example_arc 0 1 1 10 @ [(0, 0, 0)])],
            NumIndices := length (example_arc 0 1 1 10) + 2\<rparr>) example_importer)"
    using readArcClose2D_pie [where make_arc2D = example_arc and arc = "example_arc 0 1 1 10"
        and past_end = "(9, 9, 9)" and s = example_importer
        and childrenReadMetadata = example_metadata,
        OF u f(1) [symmetric] f(2) [symmetric] _ n c [symmetric]]
    by (simp add: f)
  then show ?thesis
    using d c g float_sub_near_two_pi readArcClose2D_near_two_pi
    by (simp add: arcclose_pie_def attach_and_register_def set_ID_def
        store_new_def push_child_def push_NodeElement_List_def example_importer_def
        new_X3DNodeElementGeometry2D_def example_arc_def list_front_def)
qed

text \<open>
  C2, amended. For ArcClose2D on the definition path, the arc-point sequence being not
  empty: when the range is not a full circle as the reader tests it (the angles differ and
  the absolute value of their binary32 difference is below AI_MATH_TWO_PI_F, the binary32
  \<open>2\<pi>\<close>) and closureType is PIE (bare or double-quoted) the reader appends the origin
  after the arc points and then appends the first arc point, so the vertices are the arc
  points plus exactly two points at the end; with closureType CHORD (bare or
  double-quoted) it appends the first arc point only; when the range is a full circle by
  that test the vertices are the arc points; in each of these cases \<open>NumIndices\<close> is the
  number of vertices.
\<close>

theorem readArcClose2D_closure:
  assumes "use_of node = []"
    and "startAngle = getFloatAttribute node ''startAngle'' 0"
    and "endAngle = getFloatAttribute node ''endAngle'' AI_MATH_HALF_PI_F"
    and "make_arc2D startAngle endAngle (getFloatAttribute node ''radius'' 1) 10 = p0 # rest"
    and "closureType = getStdStrAttribute node ''closureType'' ''PIE''"
    and "circle = (\<bar>float_sub endAngle startAngle\<bar> \<ge> AI_MATH_TWO_PI_F \<or> endAngle = startAngle)"
  shows "(\<not> circle \<and> (closureType = ''PIE'' \<or> closureType = quoted ''PIE'') \<longrightarrow>
            (\<exists>obj. readArcClose2D childrenReadMetadata make_arc2D past_end node s =
                attach_and_register childrenReadMetadata node ''ArcClose2D'' (length (heap s))
                  (store_new obj s)
              \<and> Vertices obj = (p0 # rest) @ [(0, 0, 0), p0]
              \<and> NumIndices obj = length (Vertices obj)))
       \<and> (\<not> circle \<and> (closureType = ''CHORD'' \<or> closureType = quoted ''CHORD'') \<longrightarrow>
            (\<exists>obj. readArcClose2D childrenReadMetadata make_arc2D past_end node s =
                attach_and_register childrenReadMetadata node ''ArcClose2D'' (length (heap s))
                  (store_new obj s)
              \<and> Vertices obj = (p0 # rest) @ [p0]
              \<and> NumIndices obj = length (Vertices obj)))
       \<and> (circle \<longrightarrow>
            (\<exists>obj. readArcClose2D childrenReadMetadata make_arc2D past_end node s =
                attach_and_register childrenReadMetadata node ''ArcClose2D'' (length (heap s))
                  (store_new obj s)
              \<and> Vertices obj = p0 # rest
              \<and> NumIndices obj = length (Vertices obj)))"
proof (intro conjI impI)
  assume a: "\<not> circle \<and> (closureType = ''PIE'' \<or> closureType = quoted ''PIE'')"
  show "\<exists>obj. readArcClose2D childrenReadMetadata make_arc2D past_end node s =
        attach_and_register childrenReadMetadata node ''ArcClose2D'' (length (heap s))
          (store_new obj s)
      \<and> Vertices obj = (p0 # rest) @ [(0, 0, 0), p0]
      \<and> NumIndices obj = length (Vertices obj)"
    using readArcClose2D_pie [where make_arc2D = make_arc2D and past_end = past_end and s = s
        and childrenReadMetadata = childrenReadMetadata,
        OF assms(1,2,3) assms(4) [symmetric] _ assms(5)] a assms(6)
    by (intro exI [of _ "(set_ID (def_of node)
          (new_X3DNodeElementGeometry2D ENET_ArcClose2D (mNodeElementCur s)))
        \<lparr>Solid := getBoolAttribute node ''solid'' False,
         Vertices := (p0 # rest) @ [(0, 0, 0), p0], NumIndices := length (p0 # rest) + 2\<rparr>"])
      (simp add: list_front_def)
next
  assume a: "\<not> circle \<and> (closureType = ''CHORD'' \<or> closureType = quoted ''CHORD'')"
  show "\<exists>obj. readArcClose2D childrenReadMetadata make_arc2D past_end node s =
        attach_and_register childrenReadMetadata node ''ArcClose2D'' (length (heap s))
          (store_new obj s)
      \<and> Vertices obj = (p0 # rest) @ [p0]
      \<and> NumIndices obj = length (Vertices obj)"
    using readArcClose2D_chord [where make_arc2D = make_arc2D and past_end = past_end and s = s
        and childrenReadMetadata = childrenReadMetadata,
        OF assms(1,2,3) assms(4) [symmetric] _ assms(5)] a assms(6)
    by (intro exI [of _ "(set_ID (def_of node)
          (new_X3DNodeElementGeometry2D ENET_ArcClose2D (mNodeElementCur s)))
        \<lparr>Solid := getBoolAttribute node ''solid'' False,
         Vertices := (p0 # rest) @ [p0], NumIndices := length (p0 # rest) + 1\<rparr>"])
      (simp add: list_front_def)
next
  assume a: circle
  show "\<exists>obj. readArcClose2D childrenReadMetadata make_arc2D past_end node s =
        attach_and_register childrenReadMetadata node ''ArcClose2D'' (length (heap s))
          (store_new obj s)
      \<and> Vertices obj = p0 # rest
      \<and> NumIndices obj = length (Vertices obj)"
    using readArcClose2D_circle [where make_arc2D = make_arc2D and past_end = past_end and s = s
        and childrenReadMetadata = childrenReadMetadata,
        OF assms(1,2,3) assms(4) [symmetric]] a assms(6)
    by (intro exI [of _ "(set_ID (def_of node)
          (new_X3DNodeElementGeometry2D ENET_ArcClose2D (mNodeElementCur s)))
        \<lparr>Solid := getBoolAttribute node ''solid'' False,
         Vertices := p0 # rest, NumIndices := length (p0 # rest)\<rparr>"])
      simp
qed

theorem readArcClose2D_closure_witness:
  "use_of arcclose_pie = []
   \<and> example_arc 0 1 1 10 = (1, 0, 0) # [(0, 1, 0), (- 1, 0, 0), (0, - 1, 0)]
   \<and> getStdStrAttribute arcclose_pie ''closureType'' ''PIE'' = ''PIE''
   \<and> \<not> (\<bar>float_sub 1 0\<bar> \<ge> AI_MATH_TWO_PI_F \<or> (1::real) = 0)
   \<and> (\<exists>obj. readArcClose2D example_metadata example_arc (9, 9, 9) arcclose_pie example_importer =
          attach_and_register example_metadata arcclose_pie ''ArcClose2D'' 1
            (store_new obj example_importer)
        \<and> Vertices obj =
            [(1, 0, 0), (0, 1, 0), (- 1, 0, 0), (0, - 1, 0), (0, 0, 0), (1, 0, 0)]
        \<and> NumIndices obj = 6)"
proof -
  have u: "use_of arcclose_pie = []"
    by (simp add: arcclose_pie_def MACRO_ATTRREAD_CHECKUSEDEF_RET_def)
  have f: "getFloatAttribute arcclose_pie ''startAngle'' 0 = 0"
    "getFloatAttribute arcclose_pie ''endAngle'' AI_MATH_HALF_PI_F = 1"
    "getFloatAttribute arcclose_pie ''radius'' 1 = 1"
    by (simp_all add: arcclose_pie_def example_node_def getFloatAttribute_def)
  have c: "getStdStrAttribute arcclose_pie ''closureType'' ''PIE'' = ''PIE''"
    by (simp add: arcclose_pie_def)
  have n: "\<not> (\<bar>float_sub 1 0\<bar> \<ge> AI_MATH_TWO_PI_F \<or> (1::real) = 0)"
    by (simp add: float_sub_1_0 AI_MATH_TWO_PI_F_def)
  have a: "example_arc 0 1 (getFloatAttribute arcclose_pie ''radius'' 1) 10 =
      (1, 0, 0) # [(0, 1, 0), (- 1, 0, 0), (0, - 1, 0)]"
    by (simp add: f example_arc_def)
  have l: "length (heap example_importer) = 1"
    by (simp add: example_importer_def)
  show ?thesis
    using readArcClose2D_closure [where make_arc2D = example_arc and past_end = "(9, 9, 9)"
        and s = example_importer and childrenReadMetadata = example_metadata,
        OF u f(1) [symmetric] f(2) [symmetric] a c [symmetric] refl] u c n a f l
    by auto
qed

text \<open>
  C3, as stated, fails: a closureType that is neither PIE nor CHORD is not looked at
  when the two angles are equal. With closureType WEDGE and both angles 1 the reader
  returns with the points of the circle. It returns as well with closureType WEDGE and
  the angles \<open>-0.3f\<close> and \<open>5.9831853f\<close>, which differ by less than AI_MATH_TWO_PI_F
  and whose binary32 difference is AI_MATH_TWO_PI_F. And the closureType \<open>"PIE"\<close> with
  its double quotes, a string that is neither PIE nor CHORD, is taken for PIE: on the arc
  from 0 to 1 the reader returns with the closed arc.
\<close>

theorem readArcClose2D_wedge_circle_counterexample:
  "use_of arcclose_wedge_circle = []
   \<and> getStdStrAttribute arcclose_wedge_circle ''closureType'' ''PIE'' = ''WEDGE''
   \<and> readArcClose2D example_metadata example_arc (9, 9, 9) arcclose_wedge_circle
         example_importer =
       Inr \<lparr>heap = [(new_X3DNodeElementGeometry2D ENET_Group 0)\<lparr>Children := [1]\<rparr>,
                    (new_X3DNodeElementGeometry2D ENET_ArcClose2D 0)
                      \<lparr>Vertices := [(1, 0, 0), (0, 1, 0), (- 1, 0, 0), (0, - 1, 0)],
                       NumIndices := 4\<rparr>],
            mNodeElementCur = 0, NodeElement_List = [0, 1]\<rparr>
   \<and> getStdStrAttribute arcclose_wedge_near_two_pi ''closureType'' ''PIE'' = ''WEDGE''
   \<and> getFloatAttribute arcclose_wedge_near_two_pi ''startAngle'' 0 = - 5033165 / 2 ^ 24
   \<and> getFloatAttribute arcclose_wedge_near_two_pi ''endAngle'' AI_MATH_HALF_PI_F
       = 12547649 / 2 ^ 21
   \<and> \<bar>12547649 / 2 ^ 21 - (- 5033165 / 2 ^ 24)\<bar> < AI_MATH_TWO_PI_F
   \<and> (12547649 / 2 ^ 21 :: real) \<noteq> - 5033165 / 2 ^ 24
   \<and> readArcClose2D example_metadata example_arc (9, 9, 9) arcclose_wedge_near_two_pi
         example_importer =
       Inr \<lparr>heap = [(new_X3DNodeElementGeometry2D ENET_Group 0)\<lparr>Children := [1]\<rparr>,
                    (new_X3DNodeElementGeometry2D ENET_ArcClose2D 0)
                      \<lparr>Vertices := [(1, 0, 0), (0, 1, 0), (- 1, 0, 0), (0, - 1, 0)],
                       NumIndices := 4\<rparr>],
            mNodeElementCur = 0, NodeElement_List = [0, 1]\<rparr>
   \<and> getStdStrAttribute arcclose_quoted_pie ''closureType'' ''PIE'' = quoted ''PIE''
   \<and> quoted ''PIE'' \<noteq> ''PIE'' \<and> quoted ''PIE'' \<noteq> ''CHORD''
   \<and> getFloatAttribute arcclose_quoted_pie ''startAngle'' 0 = 0
   \<and> getFloatAttribute arcclose_quoted_pie ''endAngle'' AI_MATH_HALF_PI_F = 1
   \<and> \<not> (\<bar>float_sub 1 0\<bar> \<ge> AI_MATH_TWO_PI_F \<or> (1::real) = 0)
   \<and> readArcClose2D example_metadata example_arc (9, 9, 9) arcclose_quoted_pie
         example_importer =
       Inr \<lparr>heap = [(new_X3DNodeElementGeometry2D ENET_Group 0)\<lparr>Children := [1]\<rparr>,
                    (new_X3DNodeElementGeometry2D ENET_ArcClose2D 0)
                      \<lparr>Vertices := [(1, 0, 0), (0, 1, 0), (- 1, 0, 0), (0, - 1, 0),
                                    (0, 0, 0), (1, 0, 0)],
                       NumIndices := 6\<rparr>],
            mNodeElementCur = 0, NodeElement_List = [0, 1]\<rparr>"
proof -
  have g: "getStdStrAttribute arcclose_wedge_near_two_pi ''closureType'' ''PIE'' = ''WEDGE''"
    "getFloatAttribute arcclose_wedge_near_two_pi ''startAngle'' 0 = - 5033165 / 2 ^ 24"
    "getFloatAttribute arcclose_wedge_near_two_pi ''endAngle'' AI_MATH_HALF_PI_F
       = 12547649 / 2 ^ 21"
    "getStdStrAttribute arcclose_quoted_pie ''closureType'' ''PIE'' = quoted ''PIE''"
    "quoted ''PIE'' \<noteq> ''PIE''" "quoted ''PIE'' \<noteq> ''CHORD''"
    "getFloatAttribute arcclose_quoted_pie ''startAngle'' 0 = 0"
    "getFloatAttribute arcclose_quoted_pie ''endAngle'' AI_MATH_HALF_PI_F = 1"
    "\<not> (\<bar>float_sub 1 0\<bar> \<ge> AI_MATH_TWO_PI_F \<or> (1::real) = 0)"
    by (simp_all add: arcclose_wedge_near_two_pi_def arcclose_quoted_pie_def example_node_def
        getFloatAttribute_def getStdStrAttribute_def quoted_def float_sub_1_0
        AI_MATH_TWO_PI_F_def)
  have u: "use_of arcclose_wedge_circle = []" and d: "def_of arcclose_wedge_circle = []"
    by (simp_all add: arcclose_wedge_circle_def example_node_def
        MACRO_ATTRREAD_CHECKUSEDEF_RET_def getStdStrAttribute_def)
  have f: "getFloatAttribute arcclose_wedge_circle ''startAngle'' 0 = 1"
    "getFloatAttribute arcclose_wedge_circle ''endAngle'' AI_MATH_HALF_PI_F = 1"
    "getFloatAttribute arcclose_wedge_circle ''radius'' 1 = 1"
    by (simp_all add: arcclose_wedge_circle_def example_node_def getFloatAttribute_def)
  have c: "getStdStrAttribute arcclose_wedge_circle ''closureType'' ''PIE'' = ''WEDGE''"
    by (simp add: arcclose_wedge_circle_def getStdStrAttribute_def)
  have "readArcClose2D example_metadata example_arc (9, 9, 9) arcclose_wedge_circle
        example_importer =
      attach_and_register example_metadata arcclose_wedge_circle ''ArcClose2D''
        (length (heap example_importer))
        (store_new
          ((set_ID (def_of arcclose_wedge_circle)
              (new_X3DNodeElementGeometry2D ENET_ArcClose2D (mNodeElementCur example_importer)))
           \<lparr>Solid := getBoolAttribute arcclose_wedge_circle ''solid'' False,
            Vertices := example_arc 1 1 1 10,
            NumIndices := length (example_arc 1 1 1 10)\<rparr>) example_importer)"
    using readArcClose2D_circle [where make_arc2D = example_arc and arc = "example_arc 1 1 1 10"
        and past_end = "(9, 9, 9)" and s = example_importer
        and childrenReadMetadata = example_metadata,
        OF u f(1) [symmetric] f(2) [symmetric]]
    by (simp add: f)
  then have "readArcClose2D example_metadata example_arc (9, 9, 9) arcclose_wedge_circle
        example_importer =
       Inr \<lparr>heap = [(new_X3DNodeElementGeometry2D ENET_Group 0)\<lparr>Children := [1]\<rparr>,
                    (new_X3DNodeElementGeometry2D ENET_ArcClose2D 0)
                      \<lparr>Vertices := [(1, 0, 0), (0, 1, 0), (- 1, 0, 0), (0, - 1, 0)],
                       NumIndices := 4\<rparr>],
            mNodeElementCur = 0, NodeElement_List = [0, 1]\<rparr>"
    using u d c
    by (simp add: arcclose_wedge_circle_def attach_and_register_def set_ID_def
        store_new_def push_child_def push_NodeElement_List_def example_importer_def
        new_X3DNodeElementGeometry2D_def example_arc_def)
  with u c g float_sub_near_two_pi(1) readArcClose2D_wedge_near_two_pi
    readArcClose2D_quoted_pie
  show ?thesis by simp
qed

text \<open>
  C3, amended. For every ArcClose2D call on the definition path whose angle range is not
  a full circle as the reader tests it (the angles differ and the absolute value of their
  binary32 difference is below AI_MATH_TWO_PI_F, the binary32 \<open>2\<pi>\<close>) and whose
  closureType is none of PIE, CHORD and their double-quoted forms, the reader throws the
  incorrect-attribute-value error (the spec's AttributeValueError) that names ArcClose2D
  and closureType.
\<close>

theorem readArcClose2D_invalid_closureType:
  assumes "use_of node = []"
    and "startAngle = getFloatAttribute node ''startAngle'' 0"
    and "endAngle = getFloatAttribute node ''endAngle'' AI_MATH_HALF_PI_F"
    and "\<not> (\<bar>float_sub endAngle startAngle\<bar> \<ge> AI_MATH_TWO_PI_F \<or> endAngle = startAngle)"
    and "closureType = getStdStrAttribute node ''closureType'' ''PIE''"
    and "closureType \<noteq> ''PIE''" and "closureType \<noteq> quoted ''PIE''"
    and "closureType \<noteq> ''CHORD''" and "closureType \<noteq> quoted ''CHORD''"
  shows "\<exists>obj. readArcClose2D childrenReadMetadata make_arc2D past_end node s =
           Inl (IncorrectAttrValue ''ArcClose2D'' ''closureType'', store_new obj s)"
  using readArcClose2D_invalid [where make_arc2D = make_arc2D and past_end = past_end and s = s
      and childrenReadMetadata = childrenReadMetadata, OF assms(1,2,3) refl assms(4-9)]
  by blast

theorem readArcClose2D_invalid_closureType_witness:
  "use_of arcclose_wedge = []
   \<and> getStdStrAttribute arcclose_wedge ''closureType'' ''PIE'' = ''WEDGE''
   \<and> \<not> (\<bar>float_sub 1 0\<bar> \<ge> AI_MATH_TWO_PI_F \<or> (1::real) = 0)
   \<and> ''WEDGE'' \<noteq> ''PIE'' \<and> ''WEDGE'' \<noteq> quoted ''PIE''
   \<and> ''WEDGE'' \<noteq> ''CHORD'' \<and> ''WEDGE'' \<noteq> quoted ''CHORD''
   \<and> (\<exists>obj. readArcClose2D example_metadata example_arc (9, 9, 9) arcclose_wedge
          example_importer =
        Inl (IncorrectAttrValue ''ArcClose2D'' ''closureType'', store_new obj example_importer))"
proof -
  have u: "use_of arcclose_wedge = []"
    by (simp add: arcclose_wedge_def example_node_def MACRO_ATTRREAD_CHECKUSEDEF_RET_def
        getStdStrAttribute_def)
  have f: "getFloatAttribute arcclose_wedge ''startAngle'' 0 = 0"
    "getFloatAttribute arcclose_wedge ''endAngle'' AI_MATH_HALF_PI_F = 1"
    by (simp_all add: arcclose_wedge_def example_node_def getFloatAttribute_def)
  have c: "getStdStrAttribute arcclose_wedge ''closureType'' ''PIE'' = ''WEDGE''"
    by (simp add: arcclose_wedge_def getStdStrAttribute_def)
  have n: "\<not> (\<bar>float_sub 1 0\<bar> \<ge> AI_MATH_TWO_PI_F \<or> (1::real) = 0)"
    by (simp add: float_sub_1_0 AI_MATH_TWO_PI_F_def)
  have w: "''WEDGE'' \<noteq> ''PIE''" "''WEDGE'' \<noteq> quoted ''PIE''"
    "''WEDGE'' \<noteq> ''CHORD''" "''WEDGE'' \<noteq> quoted ''CHORD''"
    by (simp_all add: quoted_def)
  show ?thesis
    using readArcClose2D_invalid_closureType [where make_arc2D = example_arc
        and past_end = "(9, 9, 9)" and s = example_importer
        and childrenReadMetadata = example_metadata,
        OF u f(1) [symmetric] f(2) [symmetric] n c [symmetric] w] u c n w
    by simp
qed

subsection \<open>Disk2D: the other branches\<close>

text \<open>The other branches of the definition path of the Disk2D reader.\<close>

lemma readDisk2D_greater:
  assumes "use_of node = []"
    and "getFloatAttribute node ''innerRadius'' 0 > getFloatAttribute node ''outerRadius'' 1"
  shows "readDisk2D childrenReadMetadata make_arc2D end_i end_o node s =
           Inl (IncorrectAttrValue ''Disk2D'' ''innerRadius'', s)"
  using assms by (simp add: readDisk2D_def Let_def split_beta)





subsection \<open>The definition path\<close>

lemma count_list_fresh: "\<forall>p\<in>set l. p < ne \<Longrightarrow> count_list l (ne::nat) = 0"
  by (induction l) auto

lemma attach_and_register_returns:
  assumes "attach_and_register crm node name (length (heap s)) (store_new obj s) = Inr s'"
    and "Type obj = ty"
  shows "defined_and_registered crm node name ty s s'"
proof (cases "isNodeEmpty node")
  case True
  with assms(1) have s': "s' = push_NodeElement_List (length (heap s))
      (push_child (mNodeElementCur s) (length (heap s)) (store_new obj s))"
    by (simp add: attach_and_register_empty)
  show ?thesis
    using True assms(2)
    by (simp add: defined_and_registered_def Let_def s' attached_registry attached_store_size
        attached_Type attached_Children count_list_fresh)
next
  case False
  with assms(1) obtain s2 where
    s2: "crm node (length (heap s)) name (store_new obj s) = Inr s2"
      "s' = push_NodeElement_List (length (heap s)) s2"
    by (auto simp: attach_and_register_content split: sum.splits)
  show ?thesis
    using False assms(2) s2(1)
    by (auto simp: defined_and_registered_def Let_def s2(2) push_NodeElement_List_def
        store_new_def)
qed

lemma attach_and_register_throws:
  assumes "attach_and_register crm node name ne s1 = Inl thrown"
  shows "\<not> isNodeEmpty node \<and> crm node ne name s1 = Inl thrown"
  using assms by (auto simp: attach_and_register_def split: if_splits sum.splits)

lemma unchanged_by_throw_refl: "unchanged_by_throw s s"
  by (simp add: unchanged_by_throw_def)

lemma unchanged_by_throw_store_new: "unchanged_by_throw s (store_new obj s)"
  by (simp add: unchanged_by_throw_def store_new_def)

lemma throws_or_attaches_throw:
  "unchanged_by_throw s s' \<Longrightarrow> throws_or_attaches crm node name ty s (Inl (e, s'))"
  by (auto simp: throws_or_attaches_def)

lemma throws_or_attaches_attach:
  "Type obj = ty \<Longrightarrow>
   throws_or_attaches crm node name ty s
     (attach_and_register crm node name (length (heap s)) (store_new obj s))"
  by (auto simp: throws_or_attaches_def)

lemma Type_set_ID [simp]: "Type (set_ID d obj) = Type obj"
  by (simp add: set_ID_def)

lemma Type_new [simp]: "Type (new_X3DNodeElementGeometry2D ty p) = ty"
  by (simp add: new_X3DNodeElementGeometry2D_def)

lemmas outcome_intros =
  throws_or_attaches_throw throws_or_attaches_attach unchanged_by_throw_refl
  unchanged_by_throw_store_new

lemma readArc2D_outcome:
  "use_of node = [] \<Longrightarrow>
   throws_or_attaches crm node ''Arc2D'' ENET_Arc2D s (readArc2D crm make_arc2D node s)"
  by (simp add: readArc2D_def Let_def split_beta outcome_intros split: sum.splits)

lemma readArcClose2D_outcome:
  "use_of node = [] \<Longrightarrow>
   throws_or_attaches crm node ''ArcClose2D'' ENET_ArcClose2D s
     (readArcClose2D crm make_arc2D past_end node s)"
  by (simp add: readArcClose2D_def Let_def split_beta outcome_intros)

lemma readCircle2D_outcome:
  "use_of node = [] \<Longrightarrow>
   throws_or_attaches crm node ''Circle2D'' ENET_Circle2D s (readCircle2D crm make_arc2D node s)"
  by (simp add: readCircle2D_def Let_def split_beta outcome_intros split: sum.splits)

lemma readDisk2D_outcome:
  "use_of node = [] \<Longrightarrow>
   throws_or_attaches crm node ''Disk2D'' ENET_Disk2D s
     (readDisk2D crm make_arc2D end_i end_o node s)"
  by (simp add: readDisk2D_def Let_def split_beta outcome_intros split: sum.splits)

lemma readPolyline2D_outcome:
  "use_of node = [] \<Longrightarrow>
   throws_or_attaches crm node ''Polyline2D'' ENET_Polyline2D s (readPolyline2D crm node s)"
  by (simp add: readPolyline2D_def Let_def split_beta outcome_intros split: sum.splits)

lemma readPolypoint2D_outcome:
  "use_of node = [] \<Longrightarrow>
   throws_or_attaches crm node ''Polypoint2D'' ENET_Polypoint2D s (readPolypoint2D crm node s)"
  by (simp add: readPolypoint2D_def Let_def split_beta outcome_intros)

lemma readRectangle2D_outcome:
  "use_of node = [] \<Longrightarrow>
   throws_or_attaches crm node ''Rectangle2D'' ENET_Rectangle2D s (readRectangle2D crm node s)"
  by (simp add: readRectangle2D_def Let_def split_beta outcome_intros)

lemma readTriangleSet2D_outcome:
  "use_of node = [] \<Longrightarrow>
   throws_or_attaches crm node ''TriangleSet2D'' ENET_TriangleSet2D s
     (readTriangleSet2D crm node s)"
  by (simp add: readTriangleSet2D_def Let_def split_beta outcome_intros)

lemma throws_or_attaches_returns:
  assumes "throws_or_attaches crm node name ty s r" and "r = Inr s'"
  shows "defined_and_registered crm node name ty s s'"
  using assms attach_and_register_returns [of crm node name s _ s' ty]
  by (auto simp: throws_or_attaches_def)

lemma throws_or_attaches_throws:
  assumes "throws_or_attaches crm node name ty s r" and "r = Inl (e, s')"
  shows "unchanged_by_throw s s'
       \<or> (isNodeEmpty node = False
          \<and> (\<exists>obj. crm node (length (heap s)) name (store_new obj s) = Inl (e, s')))"
proof -
  from assms consider
    (throw) "unchanged_by_throw s s'"
    | (attach) obj where
        "attach_and_register crm node name (length (heap s)) (store_new obj s) = Inl (e, s')"
    by (auto simp: throws_or_attaches_def)
  then show ?thesis
  proof cases
    case throw
    then show ?thesis by simp
  next
    case attach
    from attach_and_register_throws [OF this] show ?thesis by blast
  qed
qed

subsection \<open>Registration and attachment\<close>

lemma extend_point_to_line_returns:
  "2 \<le> length P \<Longrightarrow> \<exists>line. extend_point_to_line P = Inr line"
  using extend_point_to_line_closed [of P] by blast

lemma attaches_returns_registered:
  assumes "Type obj = ty"
    and "r = attach_and_register crm node name (length (heap s)) (store_new obj s)"
  shows "returns_registered crm node name ty s r"
proof (cases "isNodeEmpty node")
  case True
  then obtain s' where s': "r = Inr s'"
    using assms(2) by (simp add: attach_and_register_empty)
  with assms have "defined_and_registered crm node name ty s s'"
    using attach_and_register_returns [of crm node name s obj s' ty] by simp
  with True s' assms show ?thesis
    unfolding returns_registered_def by blast
next
  case False
  show ?thesis
  proof (cases "crm node (length (heap s)) name (store_new obj s)")
    case (Inl thrown)
    with False assms show ?thesis
      unfolding returns_registered_def
      by (intro conjI exI [of _ obj]) (simp_all add: attach_and_register_content)
  next
    case (Inr s2)
    with False assms(2) have r: "r = Inr (push_NodeElement_List (length (heap s)) s2)"
      by (simp add: attach_and_register_content)
    with assms have "defined_and_registered crm node name ty s
        (push_NodeElement_List (length (heap s)) s2)"
      using attach_and_register_returns [of crm node name s obj
          "push_NodeElement_List (length (heap s)) s2" ty] by simp
    with False assms r Inr show ?thesis
      unfolding returns_registered_def
      by (intro conjI exI [of _ obj]) simp_all
  qed
qed

lemma attach_returns_registered:
  "Type obj = ty \<Longrightarrow>
   returns_registered crm node name ty s
     (attach_and_register crm node name (length (heap s)) (store_new obj s))"
  by (rule attaches_returns_registered [OF _ refl])

text \<open>Each reader goes through its definition path to the end unless it throws.\<close>

lemma readArc2D_attaches:
  assumes "use_of node = []"
    and "2 \<le> length (make_arc2D (getFloatAttribute node ''startAngle'' 0)
           (getFloatAttribute node ''endAngle'' AI_MATH_HALF_PI_F)
           (getFloatAttribute node ''radius'' 1) 10)"
  shows "returns_registered crm node ''Arc2D'' ENET_Arc2D s (readArc2D crm make_arc2D node s)"
proof -
  from extend_point_to_line_returns [OF assms(2)] obtain line where
    "extend_point_to_line (make_arc2D (getFloatAttribute node ''startAngle'' 0)
       (getFloatAttribute node ''endAngle'' AI_MATH_HALF_PI_F)
       (getFloatAttribute node ''radius'' 1) 10) = Inr line" ..
  with assms(1) show ?thesis
    by (simp add: readArc2D_def Let_def split_beta attach_returns_registered)
qed

lemma readArcClose2D_attaches:
  assumes "use_of node = []"
    and "startAngle = getFloatAttribute node ''startAngle'' 0"
    and "endAngle = getFloatAttribute node ''endAngle'' AI_MATH_HALF_PI_F"
    and "closureType = getStdStrAttribute node ''closureType'' ''PIE''"
    and "(\<bar>float_sub endAngle startAngle\<bar> \<ge> AI_MATH_TWO_PI_F \<or> endAngle = startAngle)
         \<or> closureType = ''PIE'' \<or> closureType = quoted ''PIE''
         \<or> closureType = ''CHORD'' \<or> closureType = quoted ''CHORD''"
  shows "returns_registered crm node ''ArcClose2D'' ENET_ArcClose2D s
           (readArcClose2D crm make_arc2D past_end node s)"
  using assms(1,5) unfolding assms(2,3,4)
  by (auto simp: readArcClose2D_def Let_def split_beta attach_returns_registered
      getFloatAttribute_twice)

lemma readCircle2D_attaches:
  assumes "use_of node = []"
    and "2 \<le> length (make_arc2D 0 0 (getFloatAttribute node ''radius'' 1) 10)"
  shows "returns_registered crm node ''Circle2D'' ENET_Circle2D s
           (readCircle2D crm make_arc2D node s)"
proof -
  from extend_point_to_line_returns [OF assms(2)] obtain line where
    "extend_point_to_line (make_arc2D 0 0 (getFloatAttribute node ''radius'' 1) 10) = Inr line" ..
  with assms(1) show ?thesis
    by (simp add: readCircle2D_def Let_def split_beta attach_returns_registered)
qed

lemma readDisk2D_attaches:
  assumes "use_of node = []"
    and "innerRadius = getFloatAttribute node ''innerRadius'' 0"
    and "outerRadius = getFloatAttribute node ''outerRadius'' 1"
    and "\<not> innerRadius > outerRadius"
    and "innerRadius = 0
         \<or> (innerRadius = outerRadius \<and> 2 \<le> length (make_arc2D 0 0 outerRadius 10))
         \<or> (innerRadius \<noteq> outerRadius \<and> 2 \<le> length (make_arc2D 0 0 innerRadius 10))"
  shows "returns_registered crm node ''Disk2D'' ENET_Disk2D s
           (readDisk2D crm make_arc2D end_i end_o node s)"
proof -
  consider (filled) "innerRadius = 0"
    | (line) "innerRadius \<noteq> 0" "innerRadius = outerRadius"
        "2 \<le> length (make_arc2D 0 0 outerRadius 10)"
    | (quads) "innerRadius \<noteq> 0" "innerRadius \<noteq> outerRadius"
        "2 \<le> length (make_arc2D 0 0 innerRadius 10)"
    using assms(5) by blast
  then show ?thesis
  proof cases
    case filled
    with assms(1,4) show ?thesis
      unfolding assms(2,3)
      by (simp add: readDisk2D_def Let_def split_beta attach_returns_registered)
  next
    case line
    from extend_point_to_line_returns [OF line(3)] obtain l where
      "extend_point_to_line (make_arc2D 0 0 outerRadius 10) = Inr l" ..
    with line assms(1,4) show ?thesis
      unfolding assms(2,3)
      by (simp add: readDisk2D_def Let_def split_beta attach_returns_registered)
  next
    case quads
    with assms(1,4) show ?thesis
      unfolding assms(2,3)
      by (simp add: readDisk2D_def Let_def split_beta attach_returns_registered)
  qed
qed

lemma readPolyline2D_attaches:
  assumes "use_of node = []"
    and "2 \<le> length (getVector2DListAttribute node ''lineSegments'' [])"
  shows "returns_registered crm node ''Polyline2D'' ENET_Polyline2D s
           (readPolyline2D crm node s)"
proof -
  from assms(2) have "2 \<le> length (vec2_to_vec3 (getVector2DListAttribute node ''lineSegments'' []))"
    by (simp add: vec2_to_vec3_def)
  from extend_point_to_line_returns [OF this] obtain line where
    "extend_point_to_line (vec2_to_vec3 (getVector2DListAttribute node ''lineSegments'' []))
       = Inr line" ..
  with assms(1) show ?thesis
    by (simp add: readPolyline2D_def Let_def split_beta attach_returns_registered)
qed

lemma readPolypoint2D_attaches:
  "use_of node = [] \<Longrightarrow>
   returns_registered crm node ''Polypoint2D'' ENET_Polypoint2D s (readPolypoint2D crm node s)"
  by (simp add: readPolypoint2D_def Let_def split_beta attach_returns_registered)

lemma readRectangle2D_attaches:
  "use_of node = [] \<Longrightarrow>
   returns_registered crm node ''Rectangle2D'' ENET_Rectangle2D s (readRectangle2D crm node s)"
  by (simp add: readRectangle2D_def Let_def split_beta attach_returns_registered)

lemma readTriangleSet2D_attaches:
  "use_of node = [] \<Longrightarrow>
   length (getVector2DListAttribute node ''vertices'' []) mod 3 = 0 \<Longrightarrow>
   returns_registered crm node ''TriangleSet2D'' ENET_TriangleSet2D s
     (readTriangleSet2D crm node s)"
  by (simp add: readTriangleSet2D_def Let_def split_beta attach_returns_registered)

text \<open>On the example importer, whose only element is the current one.\<close>

lemma returns_registered_example:
  assumes "returns_registered crm node name ty example_importer r" and "isNodeEmpty node"
  shows "\<exists>s'. r = Inr s' \<and> NodeElement_List s' = [0, 1] \<and> Children (heap s' ! 0) = [1]
           \<and> length (heap s') = 2 \<and> Type (heap s' ! 1) = ty"
proof -
  from assms obtain s' where
    s': "r = Inr s'" "defined_and_registered crm node name ty example_importer s'"
    unfolding returns_registered_def by blast
  from s'(2) assms(2) show ?thesis
    by (intro exI [of _ s'])
      (simp add: s'(1) defined_and_registered_def example_importer_def Let_def
        new_X3DNodeElementGeometry2D_def)
qed

text \<open>
  C5. On its definition path every reader that does not throw returns with the new
  element appended to \<open>NodeElement_List\<close> exactly once. Its result is that of the
  closing lines on an object of its kind. For a node without content the reader returns:
  the element is the new last entry of the registry, where it occurs once if the registry
  held only addresses of the store, and it is the new last child of the current element.
  For a node with content the reader attaches nothing: it gives the importer with the new
  object in the store to the metadata reader, and returns what that returns with the one
  registry entry added. The conditions under which the readers do not throw: two
  tessellated points at least for Arc2D and Circle2D, two points at least for
  Polyline2D, a number of points that is a multiple of 3 for TriangleSet2D, a full circle
  or one of the closure types for ArcClose2D, \<open>innerRadius \<le> outerRadius\<close> and rings of
  two points at least for Disk2D; none for Polypoint2D and Rectangle2D.
\<close>

theorem definition_path_registers_once:
  assumes "use_of node = []"
    and "startAngle = getFloatAttribute node ''startAngle'' 0"
    and "endAngle = getFloatAttribute node ''endAngle'' AI_MATH_HALF_PI_F"
    and "radius = getFloatAttribute node ''radius'' 1"
    and "closureType = getStdStrAttribute node ''closureType'' ''PIE''"
    and "innerRadius = getFloatAttribute node ''innerRadius'' 0"
    and "outerRadius = getFloatAttribute node ''outerRadius'' 1"
  shows "(2 \<le> length (make_arc2D startAngle endAngle radius 10) \<longrightarrow>
            returns_registered crm node ''Arc2D'' ENET_Arc2D s (readArc2D crm make_arc2D node s))
       \<and> ((\<bar>float_sub endAngle startAngle\<bar> \<ge> AI_MATH_TWO_PI_F \<or> endAngle = startAngle)
            \<or> closureType = ''PIE'' \<or> closureType = quoted ''PIE''
            \<or> closureType = ''CHORD'' \<or> closureType = quoted ''CHORD'' \<longrightarrow>
            returns_registered crm node ''ArcClose2D'' ENET_ArcClose2D s
              (readArcClose2D crm make_arc2D past_end node s))
       \<and> (2 \<le> length (make_arc2D 0 0 radius 10) \<longrightarrow>
            returns_registered crm node ''Circle2D'' ENET_Circle2D s
              (readCircle2D crm make_arc2D node s))
       \<and> (\<not> innerRadius > outerRadius
            \<and> (innerRadius = 0
                \<or> (innerRadius = outerRadius \<and> 2 \<le> length (make_arc2D 0 0 outerRadius 10))
                \<or> (innerRadius \<noteq> outerRadius \<and> 2 \<le> length (make_arc2D 0 0 innerRadius 10)))
            \<longrightarrow>
            returns_registered crm node ''Disk2D'' ENET_Disk2D s
              (readDisk2D crm make_arc2D end_i end_o node s))
       \<and> (2 \<le> length (getVector2DListAttribute node ''lineSegments'' []) \<longrightarrow>
            returns_registered crm node ''Polyline2D'' ENET_Polyline2D s
              (readPolyline2D crm node s))
       \<and> returns_registered crm node ''Polypoint2D'' ENET_Polypoint2D s
           (readPolypoint2D crm node s)
       \<and> returns_registered crm node ''Rectangle2D'' ENET_Rectangle2D s
           (readRectangle2D crm node s)
       \<and> (length (getVector2DListAttribute node ''vertices'' []) mod 3 = 0 \<longrightarrow>
            returns_registered crm node ''TriangleSet2D'' ENET_TriangleSet2D s
              (readTriangleSet2D crm node s))
       \<and> (\<forall>s'. readArc2D crm make_arc2D node s = Inr s' \<longrightarrow>
            defined_and_registered crm node ''Arc2D'' ENET_Arc2D s s')
       \<and> (\<forall>s'. readArcClose2D crm make_arc2D past_end node s = Inr s' \<longrightarrow>
            defined_and_registered crm node ''ArcClose2D'' ENET_ArcClose2D s s')
       \<and> (\<forall>s'. readCircle2D crm make_arc2D node s = Inr s' \<longrightarrow>
            defined_and_registered crm node ''Circle2D'' ENET_Circle2D s s')
       \<and> (\<forall>s'. readDisk2D crm make_arc2D end_i end_o node s = Inr s' \<longrightarrow>
            defined_and_registered crm node ''Disk2D'' ENET_Disk2D s s')
       \<and> (\<forall>s'. readPolyline2D crm node s = Inr s' \<longrightarrow>
            defined_and_registered crm node ''Polyline2D'' ENET_Polyline2D s s')
       \<and> (\<forall>s'. readPolypoint2D crm node s = Inr s' \<longrightarrow>
            defined_and_registered crm node ''Polypoint2D'' ENET_Polypoint2D s s')
       \<and> (\<forall>s'. readRectangle2D crm node s = Inr s' \<longrightarrow>
            defined_and_registered crm node ''Rectangle2D'' ENET_Rectangle2D s s')
       \<and> (\<forall>s'. readTriangleSet2D crm node s = Inr s' \<longrightarrow>
            defined_and_registered crm node ''TriangleSet2D'' ENET_TriangleSet2D s s')"
proof -
  have arc: "returns_registered crm node ''Arc2D'' ENET_Arc2D s (readArc2D crm make_arc2D node s)"
    if "2 \<le> length (make_arc2D startAngle endAngle radius 10)"
    using that unfolding assms(2,3,4) by (rule readArc2D_attaches [OF assms(1)])
  have arcclose: "returns_registered crm node ''ArcClose2D'' ENET_ArcClose2D s
      (readArcClose2D crm make_arc2D past_end node s)"
    if "(\<bar>float_sub endAngle startAngle\<bar> \<ge> AI_MATH_TWO_PI_F \<or> endAngle = startAngle)
        \<or> closureType = ''PIE'' \<or> closureType = quoted ''PIE''
        \<or> closureType = ''CHORD'' \<or> closureType = quoted ''CHORD''"
    using that by (rule readArcClose2D_attaches [OF assms(1,2,3,5)])
  have circle: "returns_registered crm node ''Circle2D'' ENET_Circle2D s
      (readCircle2D crm make_arc2D node s)"
    if "2 \<le> length (make_arc2D 0 0 radius 10)"
    using that unfolding assms(4) by (rule readCircle2D_attaches [OF assms(1)])
  have disk: "returns_registered crm node ''Disk2D'' ENET_Disk2D s
      (readDisk2D crm make_arc2D end_i end_o node s)"
    if "\<not> innerRadius > outerRadius
        \<and> (innerRadius = 0
            \<or> (innerRadius = outerRadius \<and> 2 \<le> length (make_arc2D 0 0 outerRadius 10))
            \<or> (innerRadius \<noteq> outerRadius \<and> 2 \<le> length (make_arc2D 0 0 innerRadius 10)))"
    using that readDisk2D_attaches [OF assms(1,6,7), of make_arc2D crm s end_i end_o] by blast
  have polyline: "returns_registered crm node ''Polyline2D'' ENET_Polyline2D s
      (readPolyline2D crm node s)"
    if "2 \<le> length (getVector2DListAttribute node ''lineSegments'' [])"
    using that by (rule readPolyline2D_attaches [OF assms(1)])
  have triangles: "returns_registered crm node ''TriangleSet2D'' ENET_TriangleSet2D s
      (readTriangleSet2D crm node s)"
    if "length (getVector2DListAttribute node ''vertices'' []) mod 3 = 0"
    using that by (rule readTriangleSet2D_attaches [OF assms(1)])
  note returned = throws_or_attaches_returns [rotated]
  show ?thesis
    apply (intro conjI allI impI)
                   apply (erule arc)
                  apply (erule arcclose)
                 apply (erule circle)
                apply (erule disk)
               apply (erule polyline)
              apply (rule readPolypoint2D_attaches [OF assms(1)])
             apply (rule readRectangle2D_attaches [OF assms(1)])
            apply (erule triangles)
           apply (erule returned, rule readArc2D_outcome [OF assms(1)])
          apply (erule returned, rule readArcClose2D_outcome [OF assms(1)])
         apply (erule returned, rule readCircle2D_outcome [OF assms(1)])
        apply (erule returned, rule readDisk2D_outcome [OF assms(1)])
       apply (erule returned, rule readPolyline2D_outcome [OF assms(1)])
      apply (erule returned, rule readPolypoint2D_outcome [OF assms(1)])
     apply (erule returned, rule readRectangle2D_outcome [OF assms(1)])
    apply (erule returned, rule readTriangleSet2D_outcome [OF assms(1)])
    done
qed

theorem definition_path_registers_once_witness:
  "use_of example_node = [] \<and> isNodeEmpty example_node
   \<and> 2 \<le> length (example_arc 0 AI_MATH_HALF_PI_F 1 10)
   \<and> (\<exists>s'. readArc2D example_metadata example_arc example_node example_importer = Inr s'
        \<and> NodeElement_List s' = [0, 1] \<and> Children (heap s' ! 0) = [1]
        \<and> length (heap s') = 2 \<and> Type (heap s' ! 1) = ENET_Arc2D)
   \<and> getStdStrAttribute example_node ''closureType'' ''PIE'' = ''PIE''
   \<and> (\<exists>s'. readArcClose2D example_metadata example_arc (9, 9, 9) example_node example_importer
          = Inr s'
        \<and> NodeElement_List s' = [0, 1] \<and> Children (heap s' ! 0) = [1]
        \<and> length (heap s') = 2 \<and> Type (heap s' ! 1) = ENET_ArcClose2D)
   \<and> 2 \<le> length (example_arc 0 0 1 10)
   \<and> (\<exists>s'. readCircle2D example_metadata example_arc example_node example_importer = Inr s'
        \<and> NodeElement_List s' = [0, 1] \<and> Children (heap s' ! 0) = [1]
        \<and> length (heap s') = 2 \<and> Type (heap s' ! 1) = ENET_Circle2D)
   \<and> \<not> getFloatAttribute example_node ''innerRadius'' 0
         > getFloatAttribute example_node ''outerRadius'' 1
   \<and> getFloatAttribute example_node ''innerRadius'' 0 = 0
   \<and> (\<exists>s'. readDisk2D example_metadata example_arc (7, 7, 7) (9, 9, 9) example_node
          example_importer = Inr s'
        \<and> NodeElement_List s' = [0, 1] \<and> Children (heap s' ! 0) = [1]
        \<and> length (heap s') = 2 \<and> Type (heap s' ! 1) = ENET_Disk2D)
   \<and> use_of polyline_3 = [] \<and> isNodeEmpty polyline_3
   \<and> 2 \<le> length (getVector2DListAttribute polyline_3 ''lineSegments'' [])
   \<and> (\<exists>s'. readPolyline2D example_metadata polyline_3 example_importer = Inr s'
        \<and> NodeElement_List s' = [0, 1] \<and> Children (heap s' ! 0) = [1]
        \<and> length (heap s') = 2 \<and> Type (heap s' ! 1) = ENET_Polyline2D)
   \<and> (\<exists>s'. readPolypoint2D example_metadata example_node example_importer = Inr s'
        \<and> NodeElement_List s' = [0, 1] \<and> Children (heap s' ! 0) = [1]
        \<and> length (heap s') = 2 \<and> Type (heap s' ! 1) = ENET_Polypoint2D)
   \<and> (\<exists>s'. readRectangle2D example_metadata example_node example_importer = Inr s'
        \<and> NodeElement_List s' = [0, 1] \<and> Children (heap s' ! 0) = [1]
        \<and> length (heap s') = 2 \<and> Type (heap s' ! 1) = ENET_Rectangle2D)
   \<and> length (getVector2DListAttribute example_node ''vertices'' []) mod 3 = 0
   \<and> (\<exists>s'. readTriangleSet2D example_metadata example_node example_importer = Inr s'
        \<and> NodeElement_List s' = [0, 1] \<and> Children (heap s' ! 0) = [1]
        \<and> length (heap s') = 2 \<and> Type (heap s' ! 1) = ENET_TriangleSet2D)
   \<and> use_of node_with_content = [] \<and> \<not> isNodeEmpty node_with_content
   \<and> readPolypoint2D example_metadata node_with_content example_importer =
       Inr \<lparr>heap = [(new_X3DNodeElementGeometry2D ENET_Group 0)\<lparr>Children := [1]\<rparr>,
                    (new_X3DNodeElementGeometry2D ENET_Polypoint2D 0)\<lparr>NumIndices := 1\<rparr>],
            mNodeElementCur = 0, NodeElement_List = [0, 1]\<rparr>
   \<and> defined_and_registered example_metadata node_with_content ''Polypoint2D''
       ENET_Polypoint2D example_importer
       \<lparr>heap = [(new_X3DNodeElementGeometry2D ENET_Group 0)\<lparr>Children := [1]\<rparr>,
                (new_X3DNodeElementGeometry2D ENET_Polypoint2D 0)\<lparr>NumIndices := 1\<rparr>],
        mNodeElementCur = 0, NodeElement_List = [0, 1]\<rparr>"
proof -
  have u: "use_of example_node = []" "def_of example_node = []"
    "use_of node_with_content = []" "def_of node_with_content = []"
    "use_of polyline_3 = []"
    by (simp_all add: node_with_content_def polyline_3_def example_node_def
        MACRO_ATTRREAD_CHECKUSEDEF_RET_def getStdStrAttribute_def)
  have e: "isNodeEmpty example_node" "\<not> isNodeEmpty node_with_content" "isNodeEmpty polyline_3"
    by (simp_all add: node_with_content_def polyline_3_def example_node_def isNodeEmpty_def)
  have a: "getFloatAttribute example_node ''startAngle'' 0 = 0"
    "getFloatAttribute example_node ''endAngle'' AI_MATH_HALF_PI_F = AI_MATH_HALF_PI_F"
    "getFloatAttribute example_node ''radius'' 1 = 1"
    "getStdStrAttribute example_node ''closureType'' ''PIE'' = ''PIE''"
    "getFloatAttribute example_node ''innerRadius'' 0 = 0"
    "getFloatAttribute example_node ''outerRadius'' 1 = 1"
    "getVector2DListAttribute example_node ''vertices'' [] = []"
    "getVector2DListAttribute example_node ''point'' [] = []"
    "getVector2DListAttribute node_with_content ''point'' [] = []"
    "getVector2DListAttribute polyline_3 ''lineSegments'' [] = [(0, 0), (1, 0), (0, 1)]"
    by (simp_all add: example_node_def node_with_content_def polyline_3_def
        getFloatAttribute_def getStdStrAttribute_def getVector2DListAttribute_def)
  note w = definition_path_registers_once [where crm = example_metadata
      and make_arc2D = example_arc and past_end = "(9, 9, 9)" and end_i = "(7, 7, 7)"
      and end_o = "(9, 9, 9)" and s = example_importer,
      OF u(1) a(1) [symmetric] a(2) [symmetric] a(3) [symmetric] a(4) [symmetric]
        a(5) [symmetric] a(6) [symmetric]]
  note wp = definition_path_registers_once [where crm = example_metadata
      and make_arc2D = example_arc and past_end = "(9, 9, 9)" and end_i = "(7, 7, 7)"
      and end_o = "(9, 9, 9)" and s = example_importer, OF u(5) refl refl refl refl refl refl]
  note wc = definition_path_registers_once [where crm = example_metadata
      and make_arc2D = example_arc and past_end = "(9, 9, 9)" and end_i = "(7, 7, 7)"
      and end_o = "(9, 9, 9)" and s = example_importer, OF u(3) refl refl refl refl refl refl]
  have rr:
    "returns_registered example_metadata example_node ''Arc2D'' ENET_Arc2D example_importer
       (readArc2D example_metadata example_arc example_node example_importer)"
    "returns_registered example_metadata example_node ''ArcClose2D'' ENET_ArcClose2D
       example_importer
       (readArcClose2D example_metadata example_arc (9, 9, 9) example_node example_importer)"
    "returns_registered example_metadata example_node ''Circle2D'' ENET_Circle2D
       example_importer (readCircle2D example_metadata example_arc example_node example_importer)"
    "returns_registered example_metadata example_node ''Disk2D'' ENET_Disk2D example_importer
       (readDisk2D example_metadata example_arc (7, 7, 7) (9, 9, 9) example_node
          example_importer)"
    "returns_registered example_metadata example_node ''Polypoint2D'' ENET_Polypoint2D
       example_importer (readPolypoint2D example_metadata example_node example_importer)"
    "returns_registered example_metadata example_node ''Rectangle2D'' ENET_Rectangle2D
       example_importer (readRectangle2D example_metadata example_node example_importer)"
    "returns_registered example_metadata example_node ''TriangleSet2D'' ENET_TriangleSet2D
       example_importer (readTriangleSet2D example_metadata example_node example_importer)"
    using w a(7) by simp_all
  have rp: "returns_registered example_metadata polyline_3 ''Polyline2D'' ENET_Polyline2D
      example_importer (readPolyline2D example_metadata polyline_3 example_importer)"
    using wp a(10) by simp
  have r1: "\<exists>s'. readArc2D example_metadata example_arc example_node example_importer = Inr s'
        \<and> NodeElement_List s' = [0, 1] \<and> Children (heap s' ! 0) = [1]
        \<and> length (heap s') = 2 \<and> Type (heap s' ! 1) = ENET_Arc2D"
    by (rule returns_registered_example [OF rr(1) e(1)])
  have r2: "\<exists>s'. readArcClose2D example_metadata example_arc (9, 9, 9) example_node
          example_importer = Inr s'
        \<and> NodeElement_List s' = [0, 1] \<and> Children (heap s' ! 0) = [1]
        \<and> length (heap s') = 2 \<and> Type (heap s' ! 1) = ENET_ArcClose2D"
    by (rule returns_registered_example [OF rr(2) e(1)])
  have r3: "\<exists>s'. readCircle2D example_metadata example_arc example_node example_importer = Inr s'
        \<and> NodeElement_List s' = [0, 1] \<and> Children (heap s' ! 0) = [1]
        \<and> length (heap s') = 2 \<and> Type (heap s' ! 1) = ENET_Circle2D"
    by (rule returns_registered_example [OF rr(3) e(1)])
  have r4: "\<exists>s'. readDisk2D example_metadata example_arc (7, 7, 7) (9, 9, 9) example_node
          example_importer = Inr s'
        \<and> NodeElement_List s' = [0, 1] \<and> Children (heap s' ! 0) = [1]
        \<and> length (heap s') = 2 \<and> Type (heap s' ! 1) = ENET_Disk2D"
    by (rule returns_registered_example [OF rr(4) e(1)])
  have r5: "\<exists>s'. readPolyline2D example_metadata polyline_3 example_importer = Inr s'
        \<and> NodeElement_List s' = [0, 1] \<and> Children (heap s' ! 0) = [1]
        \<and> length (heap s') = 2 \<and> Type (heap s' ! 1) = ENET_Polyline2D"
    by (rule returns_registered_example [OF rp e(3)])
  have r6: "\<exists>s'. readPolypoint2D example_metadata example_node example_importer = Inr s'
        \<and> NodeElement_List s' = [0, 1] \<and> Children (heap s' ! 0) = [1]
        \<and> length (heap s') = 2 \<and> Type (heap s' ! 1) = ENET_Polypoint2D"
    by (rule returns_registered_example [OF rr(5) e(1)])
  have r7: "\<exists>s'. readRectangle2D example_metadata example_node example_importer = Inr s'
        \<and> NodeElement_List s' = [0, 1] \<and> Children (heap s' ! 0) = [1]
        \<and> length (heap s') = 2 \<and> Type (heap s' ! 1) = ENET_Rectangle2D"
    by (rule returns_registered_example [OF rr(6) e(1)])
  have r8: "\<exists>s'. readTriangleSet2D example_metadata example_node example_importer = Inr s'
        \<and> NodeElement_List s' = [0, 1] \<and> Children (heap s' ! 0) = [1]
        \<and> length (heap s') = 2 \<and> Type (heap s' ! 1) = ENET_TriangleSet2D"
    by (rule returns_registered_example [OF rr(7) e(1)])
  have rc: "readPolypoint2D example_metadata node_with_content example_importer =
       Inr \<lparr>heap = [(new_X3DNodeElementGeometry2D ENET_Group 0)\<lparr>Children := [1]\<rparr>,
                    (new_X3DNodeElementGeometry2D ENET_Polypoint2D 0)\<lparr>NumIndices := 1\<rparr>],
            mNodeElementCur = 0, NodeElement_List = [0, 1]\<rparr>"
    using u e a
    by (simp add: readPolypoint2D_def Let_def split_beta attach_and_register_def set_ID_def
        store_new_def push_child_def push_NodeElement_List_def example_importer_def
        new_X3DNodeElementGeometry2D_def vec2_to_vec3_def example_metadata_def)
  from wc rc have dc: "defined_and_registered example_metadata node_with_content
      ''Polypoint2D'' ENET_Polypoint2D example_importer
       \<lparr>heap = [(new_X3DNodeElementGeometry2D ENET_Group 0)\<lparr>Children := [1]\<rparr>,
                (new_X3DNodeElementGeometry2D ENET_Polypoint2D 0)\<lparr>NumIndices := 1\<rparr>],
        mNodeElementCur = 0, NodeElement_List = [0, 1]\<rparr>"
    by blast
  from u e a r1 r2 r3 r4 r5 r6 r7 r8 rc dc show ?thesis by simp
qed

subsection \<open>Throws\<close>

text \<open>
  C10. On the definition path the three throws of the readers come before the registry
  append and the child attachment: Disk2D with \<open>innerRadius > outerRadius\<close> and
  TriangleSet2D with a number of points that is not a multiple of 3 throw with the
  importer as it was; ArcClose2D with an invalid closureType (and a range that is not a
  full circle) throws when the new object is in the store, with the registry, the
  current element and all earlier objects, the children of the current element among
  them, as before. More generally, whatever a reader throws on its definition path, it
  throws in such a state, unless it is the metadata reader that threw.
\<close>

theorem throws_before_attachment:
  assumes "use_of node = []"
    and "startAngle = getFloatAttribute node ''startAngle'' 0"
    and "endAngle = getFloatAttribute node ''endAngle'' AI_MATH_HALF_PI_F"
    and "closureType = getStdStrAttribute node ''closureType'' ''PIE''"
  shows "(getFloatAttribute node ''innerRadius'' 0 > getFloatAttribute node ''outerRadius'' 1 \<longrightarrow>
            readDisk2D crm make_arc2D end_i end_o node s =
              Inl (IncorrectAttrValue ''Disk2D'' ''innerRadius'', s))
       \<and> (length (getVector2DListAttribute node ''vertices'' []) mod 3 \<noteq> 0 \<longrightarrow>
            readTriangleSet2D crm node s =
              Inl (DeadlyImportError ''TriangleSet2D. Not enough points for defining triangle.'',
                   s))
       \<and> (\<not> (\<bar>float_sub endAngle startAngle\<bar> \<ge> AI_MATH_TWO_PI_F \<or> endAngle = startAngle)
            \<and> closureType \<noteq> ''PIE'' \<and> closureType \<noteq> quoted ''PIE''
            \<and> closureType \<noteq> ''CHORD'' \<and> closureType \<noteq> quoted ''CHORD'' \<longrightarrow>
            (\<exists>s'. readArcClose2D crm make_arc2D past_end node s =
                Inl (IncorrectAttrValue ''ArcClose2D'' ''closureType'', s')
              \<and> NodeElement_List s' = NodeElement_List s
              \<and> (mNodeElementCur s < length (heap s) \<longrightarrow>
                    Children (heap s' ! mNodeElementCur s) = Children (heap s ! mNodeElementCur s))
              \<and> unchanged_by_throw s s'))
       \<and> (\<forall>e s'. readArc2D crm make_arc2D node s = Inl (e, s') \<longrightarrow>
            unchanged_by_throw s s'
            \<or> (isNodeEmpty node = False
                \<and> (\<exists>obj. crm node (length (heap s)) ''Arc2D'' (store_new obj s) = Inl (e, s'))))
       \<and> (\<forall>e s'. readArcClose2D crm make_arc2D past_end node s = Inl (e, s') \<longrightarrow>
            unchanged_by_throw s s'
            \<or> (isNodeEmpty node = False
                \<and> (\<exists>obj. crm node (length (heap s)) ''ArcClose2D'' (store_new obj s)
                      = Inl (e, s'))))
       \<and> (\<forall>e s'. readCircle2D crm make_arc2D node s = Inl (e, s') \<longrightarrow>
            unchanged_by_throw s s'
            \<or> (isNodeEmpty node = False
                \<and> (\<exists>obj. crm node (length (heap s)) ''Circle2D'' (store_new obj s)
                      = Inl (e, s'))))
       \<and> (\<forall>e s'. readDisk2D crm make_arc2D end_i end_o node s = Inl (e, s') \<longrightarrow>
            unchanged_by_throw s s'
            \<or> (isNodeEmpty node = False
                \<and> (\<exists>obj. crm node (length (heap s)) ''Disk2D'' (store_new obj s) = Inl (e, s'))))
       \<and> (\<forall>e s'. readPolyline2D crm node s = Inl (e, s') \<longrightarrow>
            unchanged_by_throw s s'
            \<or> (isNodeEmpty node = False
                \<and> (\<exists>obj. crm node (length (heap s)) ''Polyline2D'' (store_new obj s)
                      = Inl (e, s'))))
       \<and> (\<forall>e s'. readPolypoint2D crm node s = Inl (e, s') \<longrightarrow>
            unchanged_by_throw s s'
            \<or> (isNodeEmpty node = False
                \<and> (\<exists>obj. crm node (length (heap s)) ''Polypoint2D'' (store_new obj s)
                      = Inl (e, s'))))
       \<and> (\<forall>e s'. readRectangle2D crm node s = Inl (e, s') \<longrightarrow>
            unchanged_by_throw s s'
            \<or> (isNodeEmpty node = False
                \<and> (\<exists>obj. crm node (length (heap s)) ''Rectangle2D'' (store_new obj s)
                      = Inl (e, s'))))
       \<and> (\<forall>e s'. readTriangleSet2D crm node s = Inl (e, s') \<longrightarrow>
            unchanged_by_throw s s'
            \<or> (isNodeEmpty node = False
                \<and> (\<exists>obj. crm node (length (heap s)) ''TriangleSet2D'' (store_new obj s)
                      = Inl (e, s'))))"
proof -
  have disk: "readDisk2D crm make_arc2D end_i end_o node s =
      Inl (IncorrectAttrValue ''Disk2D'' ''innerRadius'', s)"
    if "getFloatAttribute node ''innerRadius'' 0 > getFloatAttribute node ''outerRadius'' 1"
    using assms(1) that by (rule readDisk2D_greater)
  have tri: "readTriangleSet2D crm node s =
      Inl (DeadlyImportError ''TriangleSet2D. Not enough points for defining triangle.'', s)"
    if "length (getVector2DListAttribute node ''vertices'' []) mod 3 \<noteq> 0"
    using assms(1) that by (simp add: readTriangleSet2D_def Let_def split_beta)
  have arc: "\<exists>s'. readArcClose2D crm make_arc2D past_end node s =
        Inl (IncorrectAttrValue ''ArcClose2D'' ''closureType'', s')
      \<and> NodeElement_List s' = NodeElement_List s
      \<and> (mNodeElementCur s < length (heap s) \<longrightarrow>
            Children (heap s' ! mNodeElementCur s) = Children (heap s ! mNodeElementCur s))
      \<and> unchanged_by_throw s s'"
    if "\<not> (\<bar>float_sub endAngle startAngle\<bar> \<ge> AI_MATH_TWO_PI_F \<or> endAngle = startAngle)
        \<and> closureType \<noteq> ''PIE'' \<and> closureType \<noteq> quoted ''PIE''
        \<and> closureType \<noteq> ''CHORD'' \<and> closureType \<noteq> quoted ''CHORD''"
  proof -
    from that have c: "\<not> (\<bar>float_sub endAngle startAngle\<bar> \<ge> AI_MATH_TWO_PI_F \<or> endAngle = startAngle)"
      "closureType \<noteq> ''PIE''" "closureType \<noteq> quoted ''PIE''"
      "closureType \<noteq> ''CHORD''" "closureType \<noteq> quoted ''CHORD''"
      by simp_all
    note readArcClose2D_invalid [where make_arc2D = make_arc2D and past_end = past_end
        and s = s and childrenReadMetadata = crm, OF assms(1,2,3) refl c(1) assms(4) c(2-5)]
    then show ?thesis
      by (intro exI conjI, assumption)
        (simp_all add: store_new_def nth_append unchanged_by_throw_def)
  qed
  have g1: "unchanged_by_throw s s'
      \<or> (isNodeEmpty node = False
          \<and> (\<exists>obj. crm node (length (heap s)) ''Arc2D'' (store_new obj s) = Inl (e, s')))"
    if "readArc2D crm make_arc2D node s = Inl (e, s')" for e s'
    by (rule throws_or_attaches_throws [OF readArc2D_outcome [OF assms(1)] that])
  have g2: "unchanged_by_throw s s'
      \<or> (isNodeEmpty node = False
          \<and> (\<exists>obj. crm node (length (heap s)) ''ArcClose2D'' (store_new obj s) = Inl (e, s')))"
    if "readArcClose2D crm make_arc2D past_end node s = Inl (e, s')" for e s'
    by (rule throws_or_attaches_throws [OF readArcClose2D_outcome [OF assms(1)] that])
  have g3: "unchanged_by_throw s s'
      \<or> (isNodeEmpty node = False
          \<and> (\<exists>obj. crm node (length (heap s)) ''Circle2D'' (store_new obj s) = Inl (e, s')))"
    if "readCircle2D crm make_arc2D node s = Inl (e, s')" for e s'
    by (rule throws_or_attaches_throws [OF readCircle2D_outcome [OF assms(1)] that])
  have g4: "unchanged_by_throw s s'
      \<or> (isNodeEmpty node = False
          \<and> (\<exists>obj. crm node (length (heap s)) ''Disk2D'' (store_new obj s) = Inl (e, s')))"
    if "readDisk2D crm make_arc2D end_i end_o node s = Inl (e, s')" for e s'
    by (rule throws_or_attaches_throws [OF readDisk2D_outcome [OF assms(1)] that])
  have g5: "unchanged_by_throw s s'
      \<or> (isNodeEmpty node = False
          \<and> (\<exists>obj. crm node (length (heap s)) ''Polyline2D'' (store_new obj s) = Inl (e, s')))"
    if "readPolyline2D crm node s = Inl (e, s')" for e s'
    by (rule throws_or_attaches_throws [OF readPolyline2D_outcome [OF assms(1)] that])
  have g6: "unchanged_by_throw s s'
      \<or> (isNodeEmpty node = False
          \<and> (\<exists>obj. crm node (length (heap s)) ''Polypoint2D'' (store_new obj s) = Inl (e, s')))"
    if "readPolypoint2D crm node s = Inl (e, s')" for e s'
    by (rule throws_or_attaches_throws [OF readPolypoint2D_outcome [OF assms(1)] that])
  have g7: "unchanged_by_throw s s'
      \<or> (isNodeEmpty node = False
          \<and> (\<exists>obj. crm node (length (heap s)) ''Rectangle2D'' (store_new obj s) = Inl (e, s')))"
    if "readRectangle2D crm node s = Inl (e, s')" for e s'
    by (rule throws_or_attaches_throws [OF readRectangle2D_outcome [OF assms(1)] that])
  have g8: "unchanged_by_throw s s'
      \<or> (isNodeEmpty node = False
          \<and> (\<exists>obj. crm node (length (heap s)) ''TriangleSet2D'' (store_new obj s) = Inl (e, s')))"
    if "readTriangleSet2D crm node s = Inl (e, s')" for e s'
    by (rule throws_or_attaches_throws [OF readTriangleSet2D_outcome [OF assms(1)] that])
  show ?thesis
    by (intro conjI allI impI) (erule disk tri arc g1 g2 g3 g4 g5 g6 g7 g8)+
qed

theorem throws_before_attachment_witness:
  "use_of arcclose_wedge = []
   \<and> \<not> (\<bar>float_sub 1 0\<bar> \<ge> AI_MATH_TWO_PI_F \<or> (1::real) = 0)
   \<and> getStdStrAttribute arcclose_wedge ''closureType'' ''PIE'' = ''WEDGE''
   \<and> mNodeElementCur example_importer < length (heap example_importer)
   \<and> NodeElement_List example_importer = [0]
   \<and> Children (heap example_importer ! 0) = []
   \<and> (\<exists>s'. readArcClose2D example_metadata example_arc (9, 9, 9) arcclose_wedge
          example_importer = Inl (IncorrectAttrValue ''ArcClose2D'' ''closureType'', s')
        \<and> NodeElement_List s' = [0]
        \<and> Children (heap s' ! 0) = [])
   \<and> use_of disk_0_minus_1 = []
   \<and> getFloatAttribute disk_0_minus_1 ''innerRadius'' 0
       > getFloatAttribute disk_0_minus_1 ''outerRadius'' 1
   \<and> readDisk2D example_metadata example_arc (7, 7, 7) (9, 9, 9) disk_0_minus_1 example_importer
       = Inl (IncorrectAttrValue ''Disk2D'' ''innerRadius'', example_importer)
   \<and> use_of triangles_4 = []
   \<and> length (getVector2DListAttribute triangles_4 ''vertices'' []) mod 3 \<noteq> 0
   \<and> readTriangleSet2D example_metadata triangles_4 example_importer =
       Inl (DeadlyImportError ''TriangleSet2D. Not enough points for defining triangle.'',
            example_importer)"
proof -
  have u: "use_of arcclose_wedge = []" "use_of disk_0_minus_1 = []" "use_of triangles_4 = []"
    by (simp_all add: arcclose_wedge_def disk_0_minus_1_def triangles_4_def example_node_def
        MACRO_ATTRREAD_CHECKUSEDEF_RET_def getStdStrAttribute_def)
  have f: "getFloatAttribute arcclose_wedge ''startAngle'' 0 = 0"
    "getFloatAttribute arcclose_wedge ''endAngle'' AI_MATH_HALF_PI_F = 1"
    "getFloatAttribute disk_0_minus_1 ''innerRadius'' 0 = 0"
    "getFloatAttribute disk_0_minus_1 ''outerRadius'' 1 = - 1"
    by (simp_all add: arcclose_wedge_def disk_0_minus_1_def example_node_def
        getFloatAttribute_def)
  have c: "getStdStrAttribute arcclose_wedge ''closureType'' ''PIE'' = ''WEDGE''"
    by (simp add: arcclose_wedge_def getStdStrAttribute_def)
  have p: "getVector2DListAttribute triangles_4 ''vertices'' [] =
      [(0, 0), (1, 0), (0, 1), (1, 1)]"
    by (simp add: triangles_4_def getVector2DListAttribute_def)
  have n: "\<not> (\<bar>float_sub 1 0\<bar> \<ge> AI_MATH_TWO_PI_F \<or> (1::real) = 0)"
    by (simp add: float_sub_1_0 AI_MATH_TWO_PI_F_def)
  have w: "''WEDGE'' \<noteq> ''PIE''" "''WEDGE'' \<noteq> quoted ''PIE''"
    "''WEDGE'' \<noteq> ''CHORD''" "''WEDGE'' \<noteq> quoted ''CHORD''"
    by (simp_all add: quoted_def)
  have i: "mNodeElementCur example_importer < length (heap example_importer)"
    "NodeElement_List example_importer = [0]" "Children (heap example_importer ! 0) = []"
    "mNodeElementCur example_importer = 0"
    by (simp_all add: example_importer_def new_X3DNodeElementGeometry2D_def)
  note a = throws_before_attachment [where make_arc2D = example_arc and past_end = "(9, 9, 9)"
      and end_i = "(7, 7, 7)" and end_o = "(9, 9, 9)"
      and s = example_importer and crm = example_metadata, OF u(1) refl refl refl]
  note d = throws_before_attachment [where make_arc2D = example_arc and past_end = "(9, 9, 9)"
      and end_i = "(7, 7, 7)" and end_o = "(9, 9, 9)"
      and s = example_importer and crm = example_metadata, OF u(2) refl refl refl]
  note t = throws_before_attachment [where make_arc2D = example_arc and past_end = "(9, 9, 9)"
      and end_i = "(7, 7, 7)" and end_o = "(9, 9, 9)"
      and s = example_importer and crm = example_metadata, OF u(3) refl refl refl]
  have ra: "\<exists>s'. readArcClose2D example_metadata example_arc (9, 9, 9) arcclose_wedge
          example_importer = Inl (IncorrectAttrValue ''ArcClose2D'' ''closureType'', s')
        \<and> NodeElement_List s' = [0]
        \<and> Children (heap s' ! 0) = []"
    using a [THEN conjunct2, THEN conjunct2, THEN conjunct1] f(1,2) c n w i by auto
  have rd: "readDisk2D example_metadata example_arc (7, 7, 7) (9, 9, 9) disk_0_minus_1
      example_importer = Inl (IncorrectAttrValue ''Disk2D'' ''innerRadius'', example_importer)"
    using d [THEN conjunct1] f(3,4) by simp
  have rt: "readTriangleSet2D example_metadata triangles_4 example_importer =
       Inl (DeadlyImportError ''TriangleSet2D. Not enough points for defining triangle.'',
            example_importer)"
    using t [THEN conjunct2, THEN conjunct1] p by simp
  from u f c p n i ra rd rt show ?thesis by simp
qed

subsection \<open>The USE path\<close>

lemma MACRO_USE_CHECKANDAPPLY_absent:
  assumes "\<forall>p\<in>set (NodeElement_List s). \<not> is_definition_of s use ty p"
  shows "MACRO_USE_CHECKANDAPPLY use ty s = Inl (ReferenceError use, s)"
proof -
  from assms have "FindNodeElement use ty s = None"
    by (simp add: FindNodeElement_def find_None_iff)
  then show ?thesis by (simp add: MACRO_USE_CHECKANDAPPLY_def)
qed

lemma MACRO_USE_CHECKANDAPPLY_present:
  assumes "\<exists>p\<in>set (NodeElement_List s). is_definition_of s use ty p"
  shows "\<exists>ne. ne \<in> set (NodeElement_List s) \<and> is_definition_of s use ty ne
           \<and> MACRO_USE_CHECKANDAPPLY use ty s = Inr (push_child (mNodeElementCur s) ne s)"
proof -
  from assms obtain ne where ne: "FindNodeElement use ty s = Some ne"
    by (cases "FindNodeElement use ty s") (auto simp: FindNodeElement_def find_None_iff)
  then have "ne \<in> set (NodeElement_List s)" "is_definition_of s use ty ne"
    by (auto simp: FindNodeElement_def find_Some_iff)
  with ne show ?thesis by (auto simp: MACRO_USE_CHECKANDAPPLY_def)
qed

lemma push_child_registry [simp]:
  "NodeElement_List (push_child p c s) = NodeElement_List s"
  "length (heap (push_child p c s)) = length (heap s)"
  "mNodeElementCur (push_child p c s) = mNodeElementCur s"
  by (simp_all add: push_child_def)

lemma push_child_Children:
  "p < length (heap s) \<Longrightarrow>
   Children (heap (push_child p c s) ! p) = Children (heap s ! p) @ [c]"
  by (simp add: push_child_def)

lemma push_child_others: "q \<noteq> p \<Longrightarrow> heap (push_child p c s) ! q = heap s ! q"
  by (simp add: push_child_def)

lemma push_child_Vertices: "Vertices (heap (push_child p c s) ! q) = Vertices (heap s ! q)"
proof (cases "q = p \<and> p < length (heap s)")
  case True
  then show ?thesis by (simp add: push_child_def)
next
  case False
  then show ?thesis by (cases "q = p") (simp_all add: push_child_def list_update_beyond)
qed

text \<open>
  C6. A reader given a USE name does what MACRO_USE_CHECKANDAPPLY does for its kind. If
  the registry holds no element of that name and kind, that is a reference error and the
  importer is as it was. If it does, the address of such an element, the one in the
  registry, becomes the new last child of the current element: the object itself and no
  copy, so its vertices are those of the definition; the store has no new object and the
  registry no new entry. The macro is the one of the spec, its header not being among the
  sources.
\<close>

theorem use_path_attaches_definition:
  assumes "use_of node \<noteq> []"
  shows "readArc2D crm make_arc2D node s = MACRO_USE_CHECKANDAPPLY (use_of node) ENET_Arc2D s
       \<and> readArcClose2D crm make_arc2D past_end node s =
           MACRO_USE_CHECKANDAPPLY (use_of node) ENET_ArcClose2D s
       \<and> readCircle2D crm make_arc2D node s =
           MACRO_USE_CHECKANDAPPLY (use_of node) ENET_Circle2D s
       \<and> readDisk2D crm make_arc2D end_i end_o node s =
           MACRO_USE_CHECKANDAPPLY (use_of node) ENET_Disk2D s
       \<and> readPolyline2D crm node s = MACRO_USE_CHECKANDAPPLY (use_of node) ENET_Polyline2D s
       \<and> readPolypoint2D crm node s = MACRO_USE_CHECKANDAPPLY (use_of node) ENET_Polypoint2D s
       \<and> readRectangle2D crm node s = MACRO_USE_CHECKANDAPPLY (use_of node) ENET_Rectangle2D s
       \<and> readTriangleSet2D crm node s =
           MACRO_USE_CHECKANDAPPLY (use_of node) ENET_TriangleSet2D s
       \<and> (\<forall>ty. (\<forall>p\<in>set (NodeElement_List s). \<not> is_definition_of s (use_of node) ty p) \<longrightarrow>
             MACRO_USE_CHECKANDAPPLY (use_of node) ty s = Inl (ReferenceError (use_of node), s))
       \<and> (\<forall>ty. (\<exists>p\<in>set (NodeElement_List s). is_definition_of s (use_of node) ty p) \<longrightarrow>
             (\<exists>ne s'. MACRO_USE_CHECKANDAPPLY (use_of node) ty s = Inr s'
                \<and> ne \<in> set (NodeElement_List s)
                \<and> is_definition_of s (use_of node) ty ne
                \<and> NodeElement_List s' = NodeElement_List s
                \<and> length (heap s') = length (heap s)
                \<and> (mNodeElementCur s < length (heap s) \<longrightarrow>
                      Children (heap s' ! mNodeElementCur s) =
                        Children (heap s ! mNodeElementCur s) @ [ne])
                \<and> Vertices (heap s' ! ne) = Vertices (heap s ! ne)
                \<and> (\<forall>q. q \<noteq> mNodeElementCur s \<longrightarrow> heap s' ! q = heap s ! q)))"
proof -
  have readers:
    "readArc2D crm make_arc2D node s = MACRO_USE_CHECKANDAPPLY (use_of node) ENET_Arc2D s"
    "readArcClose2D crm make_arc2D past_end node s =
       MACRO_USE_CHECKANDAPPLY (use_of node) ENET_ArcClose2D s"
    "readCircle2D crm make_arc2D node s = MACRO_USE_CHECKANDAPPLY (use_of node) ENET_Circle2D s"
    "readDisk2D crm make_arc2D end_i end_o node s =
       MACRO_USE_CHECKANDAPPLY (use_of node) ENET_Disk2D s"
    "readPolyline2D crm node s = MACRO_USE_CHECKANDAPPLY (use_of node) ENET_Polyline2D s"
    "readPolypoint2D crm node s = MACRO_USE_CHECKANDAPPLY (use_of node) ENET_Polypoint2D s"
    "readRectangle2D crm node s = MACRO_USE_CHECKANDAPPLY (use_of node) ENET_Rectangle2D s"
    "readTriangleSet2D crm node s = MACRO_USE_CHECKANDAPPLY (use_of node) ENET_TriangleSet2D s"
    using assms
    by (simp_all add: readArc2D_def readArcClose2D_def readCircle2D_def readDisk2D_def
        readPolyline2D_def readPolypoint2D_def readRectangle2D_def readTriangleSet2D_def
        Let_def split_beta)
  have absent: "MACRO_USE_CHECKANDAPPLY (use_of node) ty s = Inl (ReferenceError (use_of node), s)"
    if "\<forall>p\<in>set (NodeElement_List s). \<not> is_definition_of s (use_of node) ty p" for ty
    using that by (rule MACRO_USE_CHECKANDAPPLY_absent)
  have present: "\<exists>ne s'. MACRO_USE_CHECKANDAPPLY (use_of node) ty s = Inr s'
      \<and> ne \<in> set (NodeElement_List s)
      \<and> is_definition_of s (use_of node) ty ne
      \<and> NodeElement_List s' = NodeElement_List s
      \<and> length (heap s') = length (heap s)
      \<and> (mNodeElementCur s < length (heap s) \<longrightarrow>
            Children (heap s' ! mNodeElementCur s) =
              Children (heap s ! mNodeElementCur s) @ [ne])
      \<and> Vertices (heap s' ! ne) = Vertices (heap s ! ne)
      \<and> (\<forall>q. q \<noteq> mNodeElementCur s \<longrightarrow> heap s' ! q = heap s ! q)"
    if "\<exists>p\<in>set (NodeElement_List s). is_definition_of s (use_of node) ty p" for ty
  proof -
    from MACRO_USE_CHECKANDAPPLY_present [OF that] obtain ne where
      ne: "ne \<in> set (NodeElement_List s)" "is_definition_of s (use_of node) ty ne"
        "MACRO_USE_CHECKANDAPPLY (use_of node) ty s = Inr (push_child (mNodeElementCur s) ne s)"
      by blast
    show ?thesis
      by (intro exI [of _ ne] exI [of _ "push_child (mNodeElementCur s) ne s"])
        (simp add: ne push_child_Children push_child_Vertices push_child_others)
  qed
  from readers absent present show ?thesis
    by (intro conjI allI impI) assumption+
qed

theorem use_path_attaches_definition_witness:
  "readCircle2D example_metadata example_arc circle_def_c1 example_importer = Inr importer_with_c1
   \<and> use_of circle_use_c1 = ''c1'' \<and> use_of circle_use_c1 \<noteq> []
   \<and> 1 \<in> set (NodeElement_List importer_with_c1)
   \<and> is_definition_of importer_with_c1 ''c1'' ENET_Circle2D 1
   \<and> readCircle2D example_metadata example_arc circle_use_c1 importer_with_c1 =
       Inr \<lparr>heap = [(new_X3DNodeElementGeometry2D ENET_Group 0)\<lparr>Children := [1, 1]\<rparr>,
                    heap importer_with_c1 ! 1],
            mNodeElementCur = 0, NodeElement_List = [0, 1]\<rparr>
   \<and> readDisk2D example_metadata example_arc (7, 7, 7) (9, 9, 9) circle_use_c1 importer_with_c1 =
       Inl (ReferenceError ''c1'', importer_with_c1)
   \<and> use_of circle_use_missing = ''missing''
   \<and> readCircle2D example_metadata example_arc circle_use_missing importer_with_c1 =
       Inl (ReferenceError ''missing'', importer_with_c1)"
proof -
  have u: "use_of circle_use_c1 = ''c1''" "use_of circle_use_missing = ''missing''"
    "use_of circle_def_c1 = []" "def_of circle_def_c1 = ''c1''"
    by (simp_all add: circle_use_c1_def circle_use_missing_def circle_def_c1_def example_node_def
        MACRO_ATTRREAD_CHECKUSEDEF_RET_def getStdStrAttribute_def)
  have n: "use_of circle_use_c1 \<noteq> []" "use_of circle_use_missing \<noteq> []"
    by (simp_all add: u)
  have e: "isNodeEmpty circle_def_c1"
    by (simp add: circle_def_c1_def example_node_def isNodeEmpty_def)
  have f: "getFloatAttribute circle_def_c1 ''radius'' 1 = 1"
    by (simp add: circle_def_c1_def example_node_def getFloatAttribute_def)
  have st: "extend_point_to_line (example_arc a b 1 k) =
      Inr [(1, 0, 0), (0, 1, 0), (0, 1, 0), (- 1, 0, 0), (- 1, 0, 0), (0, - 1, 0), (0, - 1, 0),
           (1, 0, 0)]" for a b k
    by (simp add: extend_point_to_line_def example_arc_def)
  have d: "readCircle2D example_metadata example_arc circle_def_c1 example_importer =
      Inr importer_with_c1"
    using u e f
    by (simp add: readCircle2D_def Let_def split_beta st attach_and_register_def set_ID_def
        store_new_def push_child_def push_NodeElement_List_def example_importer_def
        importer_with_c1_def new_X3DNodeElementGeometry2D_def)
  have i: "1 \<in> set (NodeElement_List importer_with_c1)"
    "is_definition_of importer_with_c1 ''c1'' ENET_Circle2D 1"
    by (simp_all add: importer_with_c1_def is_definition_of_def new_X3DNodeElementGeometry2D_def)
  note w1 = use_path_attaches_definition [where node = circle_use_c1 and s = importer_with_c1
      and crm = example_metadata and make_arc2D = example_arc and end_i = "(7, 7, 7)"
      and end_o = "(9, 9, 9)" and past_end = "(9, 9, 9)", OF n(1)]
  note w2 = use_path_attaches_definition [where node = circle_use_missing
      and s = importer_with_c1 and crm = example_metadata and make_arc2D = example_arc
      and end_i = "(7, 7, 7)" and end_o = "(9, 9, 9)" and past_end = "(9, 9, 9)", OF n(2)]
  have r1: "readCircle2D example_metadata example_arc circle_use_c1 importer_with_c1 =
       Inr \<lparr>heap = [(new_X3DNodeElementGeometry2D ENET_Group 0)\<lparr>Children := [1, 1]\<rparr>,
                    heap importer_with_c1 ! 1],
            mNodeElementCur = 0, NodeElement_List = [0, 1]\<rparr>"
    using w1 [THEN conjunct2, THEN conjunct2, THEN conjunct1]
    by (simp add: u MACRO_USE_CHECKANDAPPLY_def FindNodeElement_def is_definition_of_def
        importer_with_c1_def push_child_def new_X3DNodeElementGeometry2D_def)
  have r2: "readDisk2D example_metadata example_arc (7, 7, 7) (9, 9, 9) circle_use_c1
      importer_with_c1 = Inl (ReferenceError ''c1'', importer_with_c1)"
    using w1 [THEN conjunct2, THEN conjunct2, THEN conjunct2, THEN conjunct1]
    by (simp add: u MACRO_USE_CHECKANDAPPLY_def FindNodeElement_def is_definition_of_def
        importer_with_c1_def new_X3DNodeElementGeometry2D_def)
  have r3: "readCircle2D example_metadata example_arc circle_use_missing importer_with_c1 =
       Inl (ReferenceError ''missing'', importer_with_c1)"
    using w2 [THEN conjunct2, THEN conjunct2, THEN conjunct1]
    by (simp add: u MACRO_USE_CHECKANDAPPLY_def FindNodeElement_def is_definition_of_def
        importer_with_c1_def new_X3DNodeElementGeometry2D_def)
  from d u n i r1 r2 r3 show ?thesis by simp
qed

end
